theory Spec2Isabelle
  imports Complex_Main "HOL-Library.AList" "HOL-Library.Product_Lexorder"
    "HOL-Library.List_Lexorder" "HOL-Library.Char_ord"
begin

section \<open>The data table\<close>

text \<open>
  The analyser of \<^verbatim>\<open>mtn_churn_model.py\<close> keeps one pandas DataFrame, \<^verbatim>\<open>self.df\<close>.
  A cell of the frame is a number, a text, a boolean or the missing value (NaN, None,
  NaT). Numbers are the exact rationals: binary floating-point error is outside this
  model, every sum, quotient and rounding is computed exactly.

  A frame is the list of its column names and the list of its rows; a row gives the cell
  under each column name. \<^verbatim>\<open>len(df)\<close> is the number of rows.
\<close>

datatype cell = Num rat | Str string | Bool bool | Null

record dataframe =
  columns :: "string list"
  rows :: "(string \<Rightarrow> cell) list"

text \<open>Results of float arithmetic: a finite value, an infinity or NaN.\<close>

datatype fl = Fin rat | PosInf | NegInf | NaN

datatype error = KeyError string | NoData | LoadError

definition bind :: "error + 'a \<Rightarrow> ('a \<Rightarrow> error + 'b) \<Rightarrow> error + 'b" where
  "bind m f = (case m of Inl e \<Rightarrow> Inl e | Inr x \<Rightarrow> f x)"

definition len :: "dataframe \<Rightarrow> nat" where
  "len d = length (rows d)"

text \<open>\<^verbatim>\<open>df[c]\<close>: the column, or KeyError when the frame has no such column.\<close>

definition col :: "dataframe \<Rightarrow> string \<Rightarrow> error + cell list" where
  "col d c = (if c \<in> set (columns d) then Inr (map (\<lambda>r. r c) (rows d)) else Inl (KeyError c))"

text \<open>
  \<^verbatim>\<open>df[c] = f(...)\<close> with a value computed row by row: an existing column of that name is
  overwritten, a new one is appended.
\<close>

definition assign :: "string \<Rightarrow> ((string \<Rightarrow> cell) \<Rightarrow> cell) \<Rightarrow> dataframe \<Rightarrow> dataframe" where
  "assign c f d =
     \<lparr>columns = (if c \<in> set (columns d) then columns d else columns d @ [c]),
      rows = map (\<lambda>r. r(c := f r)) (rows d)\<rparr>"

text \<open>\<^verbatim>\<open>df[mask]\<close>: the rows selected by a boolean mask.\<close>

definition select :: "((string \<Rightarrow> cell) \<Rightarrow> bool) \<Rightarrow> dataframe \<Rightarrow> dataframe" where
  "select p d = d\<lparr>rows := filter p (rows d)\<rparr>"

subsection \<open>Series reductions\<close>

text \<open>
  \<^verbatim>\<open>sum\<close> and \<^verbatim>\<open>mean\<close> skip missing values; \<^verbatim>\<open>count\<close> counts the cells that are not
  missing. They are applied to columns that \<^verbatim>\<open>_prepare_data\<close> has made numeric, whose
  cells are numbers or missing; the numeric cells are what they read.
\<close>

fun nums :: "cell list \<Rightarrow> rat list" where
  "nums [] = []"
| "nums (Num r # cs) = r # nums cs"
| "nums (_ # cs) = nums cs"

definition series_sum :: "cell list \<Rightarrow> rat" where
  "series_sum cs = sum_list (nums cs)"

definition series_mean :: "cell list \<Rightarrow> fl" where
  "series_mean cs =
     (if nums cs = [] then NaN else Fin (sum_list (nums cs) / of_nat (length (nums cs))))"

definition series_count :: "cell list \<Rightarrow> nat" where
  "series_count cs = length (filter (\<lambda>c. c \<noteq> Null) cs)"

subsection \<open>Float arithmetic and rounding\<close>

text \<open>numpy division: a zero divisor gives NaN or an infinity, not an exception.\<close>

definition fdiv :: "rat \<Rightarrow> rat \<Rightarrow> fl" where
  "fdiv a b =
     (if b = 0 then (if a = 0 then NaN else if 0 < a then PosInf else NegInf)
      else Fin (a / b))"

text \<open>Multiplication by a positive constant, as in \<^verbatim>\<open>* 100\<close>.\<close>

fun fscale :: "fl \<Rightarrow> rat \<Rightarrow> fl" where
  "fscale (Fin x) k = Fin (x * k)"
| "fscale v k = v"

text \<open>Rounding to the nearest integer, a tie going to the even neighbour.\<close>

definition round_half_even :: "rat \<Rightarrow> int" where
  "round_half_even y =
     (let f = \<lfloor>y\<rfloor>; d = y - of_int f
      in if d < 1 / 2 then f else if 1 / 2 < d then f + 1 else if even f then f else f + 1)"

definition round2 :: "rat \<Rightarrow> rat" where
  "round2 x = of_int (round_half_even (x * 100)) / 100"

fun fround2 :: "fl \<Rightarrow> fl" where
  "fround2 (Fin x) = Fin (round2 x)"
| "fround2 v = v"

text \<open>\<^verbatim>\<open>int(x)\<close> truncates towards zero.\<close>

definition trunc :: "rat \<Rightarrow> int" where
  "trunc x = (if 0 \<le> x then \<lfloor>x\<rfloor> else \<lceil>x\<rceil>)"

section \<open>Loading: \<^verbatim>\<open>_prepare_data\<close>\<close>

text \<open>
  \<^verbatim>\<open>pd.to_numeric(..., errors='coerce')\<close>: a number stays, a text that the library parses
  as a number becomes that number, any other text becomes missing. The library's parser
  of numerals is the parameter \<open>parse\<close>.
\<close>

fun to_numeric :: "(string \<Rightarrow> rat option) \<Rightarrow> cell \<Rightarrow> cell" where
  "to_numeric parse (Num r) = Num r"
| "to_numeric parse (Str s) = (case parse s of Some r \<Rightarrow> Num r | None \<Rightarrow> Null)"
| "to_numeric parse (Bool b) = Num (if b then 1 else 0)"
| "to_numeric parse Null = Null"

definition numeric_columns :: "string list" where
  "numeric_columns =
     [''Age'', ''Satisfaction_Rate'', ''Customer_Tenure_in_months'', ''Unit_Price'',
      ''Number_of_Times_Purchased'', ''Total_Revenue'', ''Data_Usage'']"

text \<open>
  \<^verbatim>\<open>Series.map\<close> with the dictionary
  \<^verbatim>\<open>{'Churned': 1, 'Active': 0, 'Yes': 1, 'No': 0, True: 1, False: 0}\<close>: a value that is
  no key of the dictionary maps to missing. In Python the numbers 1 and 0 are equal to
  \<^verbatim>\<open>True\<close> and \<^verbatim>\<open>False\<close> and hash alike, so they hit those keys.
\<close>

fun churn_map :: "cell \<Rightarrow> cell" where
  "churn_map (Str s) =
     (if s = ''Churned'' then Num 1 else if s = ''Active'' then Num 0
      else if s = ''Yes'' then Num 1 else if s = ''No'' then Num 0 else Null)"
| "churn_map (Bool b) = (if b then Num 1 else Num 0)"
| "churn_map (Num r) = (if r = 1 then Num 1 else if r = 0 then Num 0 else Null)"
| "churn_map Null = Null"

text \<open>\<^verbatim>\<open>fillna(0)\<close>\<close>

fun fillna0 :: "cell \<Rightarrow> cell" where
  "fillna0 Null = Num 0"
| "fillna0 c = c"

definition churn_binary :: "cell \<Rightarrow> cell" where
  "churn_binary c = fillna0 (churn_map c)"

definition coerce_column :: "(cell \<Rightarrow> cell) \<Rightarrow> string \<Rightarrow> dataframe \<Rightarrow> dataframe" where
  "coerce_column f c d = (if c \<in> set (columns d) then assign c (\<lambda>r. f (r c)) d else d)"

text \<open>
  \<open>to_datetime\<close> stands for \<^verbatim>\<open>pd.to_datetime(..., errors='coerce')\<close> on one cell; no
  analysis reads the purchase date.
\<close>

definition prepare_data ::
  "(cell \<Rightarrow> cell) \<Rightarrow> (string \<Rightarrow> rat option) \<Rightarrow> dataframe \<Rightarrow> dataframe" where
  "prepare_data to_datetime parse d =
     (let d1 = coerce_column to_datetime ''Date_of_Purchase'' d;
          d2 = fold (coerce_column (to_numeric parse)) numeric_columns d1
      in if ''Customer_Churn_Status'' \<in> set (columns d2)
         then assign ''Churn_Binary'' (\<lambda>r. churn_binary (r ''Customer_Churn_Status'')) d2
         else d2)"

section \<open>The analyses\<close>

subsection \<open>Primary KPIs\<close>

record kpis =
  total_customers :: nat
  churned_customers :: int
  churn_rate :: fl
  revenue_at_risk :: rat
  total_revenue :: rat
  revenue_risk_percentage :: fl
  avg_satisfaction :: fl
  active_customers :: int

text \<open>The body of the \<^verbatim>\<open>try\<close> block of \<^verbatim>\<open>calculate_primary_kpis\<close>.\<close>

definition primary_kpis :: "dataframe \<Rightarrow> error + kpis" where
  "primary_kpis d =
     (let total = len d in
      bind (col d ''Churn_Binary'') (\<lambda>flags.
      let churned = series_sum flags;
          rate = fscale (fdiv churned (of_nat total)) 100 in
      bind (col (select (\<lambda>r. r ''Churn_Binary'' = Num 1) d) ''Total_Revenue'') (\<lambda>risk_col.
      let at_risk = series_sum risk_col in
      bind (col d ''Total_Revenue'') (\<lambda>rev_col.
      let revenue = series_sum rev_col;
          risk_pct = fscale (fdiv at_risk revenue) 100 in
      bind (col d ''Satisfaction_Rate'') (\<lambda>sat_col.
      let avg = series_mean sat_col in
      Inr \<lparr>total_customers = total,
           churned_customers = trunc churned,
           churn_rate = fround2 rate,
           revenue_at_risk = at_risk,
           total_revenue = revenue,
           revenue_risk_percentage = fround2 risk_pct,
           avg_satisfaction = fround2 avg,
           active_customers = int total - trunc churned\<rparr>)))))"

subsection \<open>Grouping and aggregation\<close>

text \<open>
  \<^verbatim>\<open>df.groupby(key)\<close> makes one group for each value of the key column that is not
  missing (rows with a missing key belong to no group), the groups in ascending order of
  the key. \<open>cell_key\<close> is the order used: numbers by value, texts lexicographically.
\<close>

fun cell_key :: "cell \<Rightarrow> nat \<times> rat \<times> string" where
  "cell_key (Bool b) = (0, (if b then 1 else 0), [])"
| "cell_key (Num r) = (1, r, [])"
| "cell_key (Str s) = (2, 0, s)"
| "cell_key Null = (3, 0, [])"

definition group_keys :: "cell list \<Rightarrow> cell list" where
  "group_keys ks = sort_key cell_key (remdups (filter (\<lambda>k. k \<noteq> Null) ks))"

text \<open>
  Grouping by a categorical column (the result of \<^verbatim>\<open>pd.cut\<close>) lists the categories in
  their declared order. Whether a category without rows is listed depends on the
  library's default for \<^verbatim>\<open>observed\<close>, which changed between pandas versions: it is the
  parameter \<open>observed\<close>.
\<close>

definition category_keys :: "bool \<Rightarrow> string list \<Rightarrow> cell list \<Rightarrow> cell list" where
  "category_keys observed labels ks =
     (if observed then filter (\<lambda>l. l \<in> set ks) (map Str labels) else map Str labels)"

text \<open>The cells of column \<open>vs\<close> in the rows whose key is \<open>g\<close>.\<close>

definition group_of :: "cell \<Rightarrow> cell list \<Rightarrow> cell list \<Rightarrow> cell list" where
  "group_of g ks vs = map snd (filter (\<lambda>kv. fst kv = g) (zip ks vs))"

datatype aggfunc = Count | Sum | Mean

fun aggregate :: "aggfunc \<Rightarrow> cell list \<Rightarrow> fl" where
  "aggregate Count cs = Fin (of_nat (series_count cs))"
| "aggregate Sum cs = Fin (series_sum cs)"
| "aggregate Mean cs = series_mean cs"

fun cols :: "dataframe \<Rightarrow> string list \<Rightarrow> error + cell list list" where
  "cols d [] = Inr []"
| "cols d (c # cs) = bind (col d c) (\<lambda>v. bind (cols d cs) (\<lambda>vs. Inr (v # vs)))"

text \<open>
  \<^verbatim>\<open>df.groupby(key).agg({...})\<close>: one row per group, holding the group's key and one
  value per requested (column, function) pair, in the order requested.
\<close>

definition groupby_agg ::
  "(cell list \<Rightarrow> cell list) \<Rightarrow> dataframe \<Rightarrow> string \<Rightarrow> (string \<times> aggfunc) list
     \<Rightarrow> error + (cell \<times> fl list) list" where
  "groupby_agg grouper d key specs =
     bind (col d key) (\<lambda>ks.
     bind (cols d (map fst specs)) (\<lambda>vss.
     Inr (map (\<lambda>g. (g, map (\<lambda>(f, vs). aggregate f (group_of g ks vs)) (zip (map snd specs) vss)))
            (grouper ks))))"

text \<open>An aggregate table: per group its key and its named values.\<close>

type_synonym table = "(cell \<times> (string \<times> fl) list) list"

text \<open>\<^verbatim>\<open>.round(2)\<close> on the whole aggregate frame.\<close>

definition round_frame :: "(cell \<times> fl list) list \<Rightarrow> (cell \<times> fl list) list" where
  "round_frame t = map (\<lambda>(g, vs). (g, map fround2 vs)) t"

text \<open>\<^verbatim>\<open>t.columns = [...]\<close>\<close>

definition set_columns :: "string list \<Rightarrow> (cell \<times> fl list) list \<Rightarrow> table" where
  "set_columns names t = map (\<lambda>(g, vs). (g, zip names vs)) t"

text \<open>\<^verbatim>\<open>t[c] = t[c] * k\<close>\<close>

definition scale_column :: "string \<Rightarrow> rat \<Rightarrow> table \<Rightarrow> table" where
  "scale_column c k t =
     map (\<lambda>(g, nvs). (g, map (\<lambda>(n, v). (n, if n = c then fscale v k else v)) nvs)) t"

definition field :: "string \<Rightarrow> (string \<times> fl) list \<Rightarrow> fl" where
  "field c nvs = (case map_of nvs c of Some v \<Rightarrow> v | None \<Rightarrow> NaN)"

text \<open>
  \<^verbatim>\<open>t.sort_values(c, ascending=False)\<close>, NaN last. Rows with equal values keep their
  order here; the library's default sort leaves their order open.
\<close>

fun desc_key :: "fl \<Rightarrow> nat \<times> rat" where
  "desc_key PosInf = (0, 0)"
| "desc_key (Fin x) = (1, - x)"
| "desc_key NegInf = (2, 0)"
| "desc_key NaN = (3, 0)"

definition sort_values_desc :: "string \<Rightarrow> table \<Rightarrow> table" where
  "sort_values_desc c t = sort_key (\<lambda>row. desc_key (field c (snd row))) t"

subsection \<open>Satisfaction\<close>

text \<open>
  \<^verbatim>\<open>groupby(['Satisfaction_Rate', 'Churn_Binary']).size().unstack(fill_value=0)\<close>: the
  number of rows for each pair of a satisfaction score and a churn flag.
\<close>

type_synonym crosstab = "(cell \<times> (cell \<times> nat) list) list"

definition size_unstack :: "cell list \<Rightarrow> cell list \<Rightarrow> crosstab" where
  "size_unstack ks fs =
     (let pairs = filter (\<lambda>(k, f). k \<noteq> Null \<and> f \<noteq> Null) (zip ks fs)
      in map (\<lambda>g. (g, map (\<lambda>f. (f, length (filter (\<lambda>p. p = (g, f)) pairs)))
                         (group_keys (map snd pairs))))
           (group_keys (map fst pairs)))"

definition satisfaction_summary :: "dataframe \<Rightarrow> error + crosstab \<times> table" where
  "satisfaction_summary d =
     bind (col d ''Satisfaction_Rate'') (\<lambda>ks.
     bind (col d ''Churn_Binary'') (\<lambda>fs.
     let crosstab = size_unstack ks fs in
     bind (groupby_agg group_keys d ''Satisfaction_Rate''
             [(''Churn_Binary'', Count), (''Churn_Binary'', Sum), (''Churn_Binary'', Mean),
              (''Total_Revenue'', Sum)]) (\<lambda>t.
     Inr (crosstab,
          scale_column ''Churn_Rate'' 100
            (set_columns [''Total_Customers'', ''Churned_Customers'', ''Churn_Rate'',
                          ''Total_Revenue''] (round_frame t))))))"

subsection \<open>Geography and devices\<close>

fun fins :: "fl list \<Rightarrow> rat list" where
  "fins [] = []"
| "fins (Fin x # vs) = x # fins vs"
| "fins (_ # vs) = fins vs"

definition fl_mean :: "fl list \<Rightarrow> fl" where
  "fl_mean vs = (if fins vs = [] then NaN else Fin (sum_list (fins vs) / of_nat (length (fins vs))))"

fun fl_gt :: "fl \<Rightarrow> fl \<Rightarrow> bool" where
  "fl_gt (Fin a) (Fin b) = (b < a)"
| "fl_gt PosInf (Fin b) = True"
| "fl_gt PosInf NegInf = True"
| "fl_gt (Fin a) NegInf = True"
| "fl_gt _ _ = False"

definition state_summary :: "dataframe \<Rightarrow> error + table" where
  "state_summary d =
     bind (groupby_agg group_keys d ''State''
             [(''Customer_ID'', Count), (''Churn_Binary'', Sum), (''Churn_Binary'', Mean),
              (''Total_Revenue'', Sum), (''Satisfaction_Rate'', Mean)]) (\<lambda>t.
     Inr (sort_values_desc ''Churn_Rate''
            (scale_column ''Churn_Rate'' 100
               (set_columns [''Total_Customers'', ''Churned_Customers'', ''Churn_Rate'',
                             ''Total_Revenue'', ''Avg_Satisfaction''] (round_frame t)))))"

definition geographic :: "dataframe \<Rightarrow> error + table \<times> table \<times> fl" where
  "geographic d =
     bind (state_summary d) (\<lambda>geo.
     let avg_churn = fl_mean (map (\<lambda>row. field ''Churn_Rate'' (snd row)) geo);
         high_risk_states = filter (\<lambda>row. fl_gt (field ''Churn_Rate'' (snd row)) avg_churn) geo
     in Inr (geo, high_risk_states, fround2 avg_churn))"

definition device_summary :: "dataframe \<Rightarrow> error + table" where
  "device_summary d =
     bind (groupby_agg group_keys d ''MTN_Device''
             [(''Customer_ID'', Count), (''Churn_Binary'', Sum), (''Churn_Binary'', Mean),
              (''Total_Revenue'', Sum), (''Unit_Price'', Mean), (''Satisfaction_Rate'', Mean)]) (\<lambda>t.
     Inr (sort_values_desc ''Churn_Rate''
            (scale_column ''Churn_Rate'' 100
               (set_columns [''Total_Customers'', ''Churned_Customers'', ''Churn_Rate'',
                             ''Total_Revenue'', ''Avg_Unit_Price'', ''Avg_Satisfaction'']
                  (round_frame t)))))"

subsection \<open>Segmentation\<close>

text \<open>
  \<^verbatim>\<open>pd.cut(x, bins, labels)\<close> with the library's defaults: the intervals are open on the
  left and closed on the right, and a value in no interval, or a missing one, gets no
  label.
\<close>

fun cut :: "rat list \<Rightarrow> string list \<Rightarrow> cell \<Rightarrow> cell" where
  "cut (lo # hi # bins) (l # labels) (Num x) =
     (if lo < x \<and> x \<le> hi then Str l else cut (hi # bins) labels (Num x))"
| "cut _ _ _ = Null"

definition age_bins :: "rat list" where
  "age_bins = [0, 25, 35, 45, 55, 100]"

definition age_labels :: "string list" where
  "age_labels = [''18-25'', ''26-35'', ''36-45'', ''46-55'', ''55+'']"

definition tenure_bins :: "rat list" where
  "tenure_bins = [0, 6, 12, 24, 36, 100]"

definition tenure_labels :: "string list" where
  "tenure_labels =
     [''0-6 months'', ''7-12 months'', ''13-24 months'', ''25-36 months'', ''36+ months'']"

definition segment_specs :: "(string \<times> aggfunc) list" where
  "segment_specs =
     [(''Customer_ID'', Count), (''Churn_Binary'', Sum), (''Churn_Binary'', Mean),
      (''Total_Revenue'', Sum), (''Satisfaction_Rate'', Mean)]"

definition segment_columns :: "string list" where
  "segment_columns =
     [''Total_Customers'', ''Churned_Customers'', ''Churn_Rate'', ''Total_Revenue'',
      ''Avg_Satisfaction'']"

definition age_summary :: "bool \<Rightarrow> dataframe \<Rightarrow> error + table" where
  "age_summary observed d =
     bind (groupby_agg (category_keys observed age_labels) d ''Age_Group'' segment_specs) (\<lambda>t.
     Inr (scale_column ''Churn_Rate'' 100 (set_columns segment_columns (round_frame t))))"

definition tenure_summary :: "bool \<Rightarrow> dataframe \<Rightarrow> error + table" where
  "tenure_summary observed d =
     bind (groupby_agg (category_keys observed tenure_labels) d ''Tenure_Group'' segment_specs) (\<lambda>t.
     Inr (scale_column ''Churn_Rate'' 100 (set_columns segment_columns (round_frame t))))"

definition plan_summary :: "dataframe \<Rightarrow> error + table" where
  "plan_summary d =
     bind (groupby_agg group_keys d ''Subscription_Plan''
             [(''Customer_ID'', Count), (''Churn_Binary'', Sum), (''Churn_Binary'', Mean),
              (''Total_Revenue'', Sum), (''Unit_Price'', Mean), (''Satisfaction_Rate'', Mean)]) (\<lambda>t.
     Inr (scale_column ''Churn_Rate'' 100
            (set_columns [''Total_Customers'', ''Churned_Customers'', ''Churn_Rate'',
                          ''Total_Revenue'', ''Avg_Unit_Price'', ''Avg_Satisfaction'']
               (round_frame t))))"

text \<open>
  The body of the \<^verbatim>\<open>try\<close> block of \<^verbatim>\<open>customer_segmentation_analysis\<close>. It writes the
  two derived columns into the base table as it goes, so the table is returned with the
  outcome: an exception leaves the columns written before it.
\<close>

definition segmentation ::
  "bool \<Rightarrow> dataframe \<Rightarrow> dataframe \<times> (error + table \<times> table \<times> table)" where
  "segmentation observed d =
     (case col d ''Age'' of Inl e \<Rightarrow> (d, Inl e) | Inr _ \<Rightarrow>
      (let d1 = assign ''Age_Group'' (\<lambda>r. cut age_bins age_labels (r ''Age'')) d in
      (case age_summary observed d1 of Inl e \<Rightarrow> (d1, Inl e) | Inr age_analysis \<Rightarrow>
      (case col d1 ''Customer_Tenure_in_months'' of Inl e \<Rightarrow> (d1, Inl e) | Inr _ \<Rightarrow>
      (let d2 = assign ''Tenure_Group''
                 (\<lambda>r. cut tenure_bins tenure_labels (r ''Customer_Tenure_in_months'')) d1 in
      (case tenure_summary observed d2 of Inl e \<Rightarrow> (d2, Inl e) | Inr tenure_analysis \<Rightarrow>
      (case plan_summary d2 of Inl e \<Rightarrow> (d2, Inl e) | Inr plan_analysis \<Rightarrow>
        (d2, Inr (age_analysis, tenure_analysis, plan_analysis)))))))))"

subsection \<open>Churn reasons\<close>

text \<open>
  \<^verbatim>\<open>value_counts()\<close>: the values that are not missing with their numbers of occurrences,
  the most frequent first; values equally frequent are kept here in the order of their
  first occurrence.
\<close>

definition value_counts :: "cell list \<Rightarrow> (cell \<times> nat) list" where
  "value_counts cs =
     (let vs = filter (\<lambda>c. c \<noteq> Null) cs
      in sort_key (\<lambda>kn. - int (snd kn)) (map (\<lambda>k. (k, count_list vs k)) (rev (remdups (rev vs)))))"

text \<open>
  The body of the \<^verbatim>\<open>try\<close> block of \<^verbatim>\<open>churn_reasons_analysis\<close>: \<open>None\<close> is the branch
  that finds no \<^verbatim>\<open>Reasons_for_Churn\<close> column.
\<close>

definition churn_reasons :: "dataframe \<Rightarrow> error + (cell \<times> nat \<times> fl) list option" where
  "churn_reasons d =
     bind (col d ''Churn_Binary'') (\<lambda>_.
     let churned = select (\<lambda>r. r ''Churn_Binary'' = Num 1) d in
     if ''Reasons_for_Churn'' \<in> set (columns churned)
     then bind (col churned ''Reasons_for_Churn'') (\<lambda>reasons.
          Inr (Some (map (\<lambda>(k, n). (k, n, fround2 (fscale (fdiv (of_nat n) (of_nat (len churned))) 100)))
                       (value_counts reasons))))
     else Inr None)"

subsection \<open>Predictive metrics\<close>

record predictive =
  at_risk_count :: nat
  at_risk_revenue :: rat
  new_customer_churn_rate :: fl
  high_value_at_risk_count :: nat
  high_value_at_risk_revenue :: rat

text \<open>Comparisons of a column with a number: a missing cell compares false.\<close>

fun cell_le :: "cell \<Rightarrow> rat \<Rightarrow> bool" where
  "cell_le (Num x) k = (x \<le> k)"
| "cell_le _ k = False"

fun cell_lt :: "cell \<Rightarrow> rat \<Rightarrow> bool" where
  "cell_lt (Num x) k = (x < k)"
| "cell_lt _ k = False"

fun cell_ge :: "cell \<Rightarrow> fl \<Rightarrow> bool" where
  "cell_ge (Num x) (Fin t) = (t \<le> x)"
| "cell_ge (Num x) NegInf = True"
| "cell_ge _ _ = False"

text \<open>\<^verbatim>\<open>quantile(0.75)\<close>: linear interpolation between the two nearest order statistics.\<close>

definition quantile75 :: "cell list \<Rightarrow> fl" where
  "quantile75 cs =
     (let xs = sort (nums cs); n = length xs
      in if n = 0 then NaN
         else let pos = (of_nat (n - 1) :: rat) * 3 / 4; lo = nat \<lfloor>pos\<rfloor>; frac = pos - of_nat lo
              in if lo + 1 < n then Fin (xs ! lo + frac * (xs ! (lo + 1) - xs ! lo))
                 else Fin (xs ! lo))"

text \<open>The body of the \<^verbatim>\<open>try\<close> block of \<^verbatim>\<open>predictive_analytics\<close>.\<close>

definition predictive_metrics :: "dataframe \<Rightarrow> error + predictive" where
  "predictive_metrics d =
     bind (col d ''Satisfaction_Rate'') (\<lambda>_.
     let at_risk_customers = select (\<lambda>r. cell_le (r ''Satisfaction_Rate'') 2) d in
     bind (col at_risk_customers ''Total_Revenue'') (\<lambda>at_risk_rev.
     bind (col d ''Customer_Tenure_in_months'') (\<lambda>_.
     let new_customers = select (\<lambda>r. cell_lt (r ''Customer_Tenure_in_months'') 6) d in
     bind (if 0 < len new_customers
           then bind (col new_customers ''Churn_Binary'') (\<lambda>flags.
                  Inr (fscale (series_mean flags) 100))
           else Inr (Fin 0)) (\<lambda>new_rate.
     bind (col d ''Total_Revenue'') (\<lambda>rev.
     let revenue_threshold = quantile75 rev;
         high_value_at_risk =
           select (\<lambda>r. cell_ge (r ''Total_Revenue'') revenue_threshold
                      \<and> cell_le (r ''Satisfaction_Rate'') 2) d in
     bind (col high_value_at_risk ''Total_Revenue'') (\<lambda>high_rev.
     Inr \<lparr>at_risk_count = len at_risk_customers,
          at_risk_revenue = series_sum at_risk_rev,
          new_customer_churn_rate = fround2 new_rate,
          high_value_at_risk_count = len high_value_at_risk,
          high_value_at_risk_revenue = series_sum high_rev\<rparr>))))))"

section \<open>The analyser\<close>

text \<open>
  The state of an \<^verbatim>\<open>MTNChurnAnalysis\<close> object: the loaded table (\<open>None\<close> before
  \<^verbatim>\<open>load_data\<close>), the mapping \<^verbatim>\<open>analysis_results\<close> from analysis names to results (a
  Python dictionary, which keeps the order in which keys were first stored), and the lines
  printed so far.
\<close>

datatype result =
    PrimaryKpis kpis
  | SatisfactionAnalysis crosstab table
  | GeographicAnalysis table table fl
  | DeviceAnalysis table
  | SegmentationAnalysis table table table
  | ChurnReasons "(cell \<times> nat \<times> fl) list"
  | PredictiveAnalytics predictive

datatype message = Done string | Warning string | Failed string error | Info string

record analyzer =
  df :: "dataframe option"
  analysis_results :: "(string \<times> result) list"
  printed :: "message list"

definition init :: analyzer where
  "init = \<lparr>df = None, analysis_results = [], printed = []\<rparr>"

text \<open>
  \<^verbatim>\<open>load_data\<close>. Reading the file is outside the model: \<open>source\<close> is what
  \<^verbatim>\<open>pd.read_csv\<close> gives, the frame read or the exception raised (also the exception for a
  missing path). An exception is caught and printed, and leaves the analyser as it was.
\<close>

definition load_data ::
  "(cell \<Rightarrow> cell) \<Rightarrow> (string \<Rightarrow> rat option) \<Rightarrow> error + dataframe \<Rightarrow> analyzer
     \<Rightarrow> bool \<times> analyzer" where
  "load_data to_datetime parse source a =
     (case source of
        Inr raw \<Rightarrow>
          (True, a\<lparr>df := Some (prepare_data to_datetime parse raw),
                   printed := printed a @ [Done ''Data loaded successfully'']\<rparr>)
      | Inl e \<Rightarrow> (False, a\<lparr>printed := printed a @ [Failed ''Error loading data'' e]\<rparr>))"

definition frame :: "analyzer \<Rightarrow> error + dataframe" where
  "frame a = (case df a of None \<Rightarrow> Inl NoData | Some d \<Rightarrow> Inr d)"

definition store :: "string \<Rightarrow> result \<Rightarrow> analyzer \<Rightarrow> analyzer" where
  "store k v a = a\<lparr>analysis_results := AList.update k v (analysis_results a)\<rparr>"

definition say :: "message \<Rightarrow> analyzer \<Rightarrow> analyzer" where
  "say m a = a\<lparr>printed := printed a @ [m]\<rparr>"

definition calculate_primary_kpis :: "analyzer \<Rightarrow> kpis option \<times> analyzer" where
  "calculate_primary_kpis a =
     (case bind (frame a) primary_kpis of
        Inr k \<Rightarrow> (Some k, say (Done ''Primary KPIs calculated'') (store ''primary_kpis'' (PrimaryKpis k) a))
      | Inl e \<Rightarrow> (None, say (Failed ''Error calculating primary KPIs'' e) a))"

definition satisfaction_churn_analysis :: "analyzer \<Rightarrow> table \<times> analyzer" where
  "satisfaction_churn_analysis a =
     (case bind (frame a) satisfaction_summary of
        Inr (crosstab, summary) \<Rightarrow>
          (summary, say (Done ''Satisfaction-Churn analysis completed'')
                      (store ''satisfaction_analysis'' (SatisfactionAnalysis crosstab summary) a))
      | Inl e \<Rightarrow> ([], say (Failed ''Error in satisfaction analysis'' e) a))"

definition geographic_analysis :: "analyzer \<Rightarrow> table \<times> analyzer" where
  "geographic_analysis a =
     (case bind (frame a) geographic of
        Inr (geo, high_risk, avg) \<Rightarrow>
          (geo, say (Done ''Geographic analysis completed'')
                  (store ''geographic_analysis'' (GeographicAnalysis geo high_risk avg) a))
      | Inl e \<Rightarrow> ([], say (Failed ''Error in geographic analysis'' e) a))"

definition device_performance_analysis :: "analyzer \<Rightarrow> table \<times> analyzer" where
  "device_performance_analysis a =
     (case bind (frame a) device_summary of
        Inr t \<Rightarrow>
          (t, say (Done ''Device performance analysis completed'')
                (store ''device_analysis'' (DeviceAnalysis t) a))
      | Inl e \<Rightarrow> ([], say (Failed ''Error in device analysis'' e) a))"

definition customer_segmentation_analysis ::
  "bool \<Rightarrow> analyzer \<Rightarrow> (table \<times> table \<times> table) option \<times> analyzer" where
  "customer_segmentation_analysis observed a =
     (case df a of
        None \<Rightarrow> (None, say (Failed ''Error in customer segmentation'' NoData) a)
      | Some d \<Rightarrow>
          (case segmentation observed d of
             (d', Inr (age, tenure, plan)) \<Rightarrow>
               (Some (age, tenure, plan),
                say (Done ''Customer segmentation analysis completed'')
                  (store ''segmentation_analysis'' (SegmentationAnalysis age tenure plan)
                     (a\<lparr>df := Some d'\<rparr>)))
           | (d', Inl e) \<Rightarrow>
               (None, say (Failed ''Error in customer segmentation'' e) (a\<lparr>df := Some d'\<rparr>))))"

definition churn_reasons_analysis :: "analyzer \<Rightarrow> (cell \<times> nat \<times> fl) list \<times> analyzer" where
  "churn_reasons_analysis a =
     (case bind (frame a) churn_reasons of
        Inr (Some t) \<Rightarrow>
          (t, say (Done ''Churn reasons analysis completed'') (store ''churn_reasons'' (ChurnReasons t) a))
      | Inr None \<Rightarrow> ([], say (Warning ''Reasons_for_Churn column not found'') a)
      | Inl e \<Rightarrow> ([], say (Failed ''Error in churn reasons analysis'' e) a))"

definition predictive_analytics :: "analyzer \<Rightarrow> predictive option \<times> analyzer" where
  "predictive_analytics a =
     (case bind (frame a) predictive_metrics of
        Inr p \<Rightarrow>
          (Some p, say (Done ''Predictive analytics completed'')
                     (store ''predictive_analytics'' (PredictiveAnalytics p) a))
      | Inl e \<Rightarrow> (None, say (Failed ''Error in predictive analytics'' e) a))"

definition run_complete_analysis :: "bool \<Rightarrow> analyzer \<Rightarrow> bool \<times> analyzer" where
  "run_complete_analysis observed a =
     (let a0 = say (Info ''Starting MTN Churn Analysis...'') a in
      if df a0 = None
      then (False, say (Failed ''No data loaded. Please load data first.'' NoData) a0)
      else
        let a1 = snd (calculate_primary_kpis a0);
            a2 = snd (satisfaction_churn_analysis a1);
            a3 = snd (geographic_analysis a2);
            a4 = snd (device_performance_analysis a3);
            a5 = snd (customer_segmentation_analysis observed a4);
            a6 = snd (churn_reasons_analysis a5);
            a7 = snd (predictive_analytics a6)
        in (True, say (Done ''Complete analysis finished!'') a7))"

section \<open>Auxiliary predicates and example tables\<close>

text \<open>A column of churn flags: every cell is the number 0 or the number 1.\<close>

definition binary :: "cell list \<Rightarrow> bool" where
  "binary fs = list_all (\<lambda>c. c = Num 0 \<or> c = Num 1) fs"

text \<open>Five customers whose churn status is a mix of dictionary keys, other text and a gap.\<close>

definition status_example :: dataframe where
  "status_example =
     \<lparr>columns = [''Customer_ID'', ''Customer_Churn_Status''],
      rows = map (\<lambda>(i, s). (\<lambda>c. Null)(''Customer_ID'' := i, ''Customer_Churn_Status'' := s))
               [(Str ''C1'', Str ''Churned''), (Str ''C2'', Str ''churned''),
                (Str ''C3'', Null), (Str ''C4'', Bool True), (Str ''C5'', Str ''No'')]\<rparr>"

text \<open>
  Three customers with satisfaction 4, 2, 5 and churn status No, Yes, No; the revenue
  cells are left open.
\<close>

definition kpi_example :: "cell \<Rightarrow> cell \<Rightarrow> cell \<Rightarrow> dataframe" where
  "kpi_example r1 r2 r3 =
     \<lparr>columns = [''Satisfaction_Rate'', ''Customer_Churn_Status'', ''Total_Revenue''],
      rows = map (\<lambda>(s, st, r). (\<lambda>c. Null)(''Satisfaction_Rate'' := s,
                    ''Customer_Churn_Status'' := st, ''Total_Revenue'' := r))
               [(Num 4, Str ''No'', r1), (Num 2, Str ''Yes'', r2), (Num 5, Str ''No'', r3)]\<rparr>"

text \<open>Three customers, none with a tenure below six months (one tenure is missing).\<close>

definition tenure_example :: dataframe where
  "tenure_example =
     \<lparr>columns = [''Satisfaction_Rate'', ''Total_Revenue'', ''Customer_Tenure_in_months''],
      rows = map (\<lambda>(s, v, t). (\<lambda>c. Null)(''Satisfaction_Rate'' := s, ''Total_Revenue'' := v,
                    ''Customer_Tenure_in_months'' := t))
               [(Num 4, Num 100, Num 6), (Num 2, Num 50, Num 24), (Num 5, Num 30, Null)]\<rparr>"

text \<open>
  The row that a grouped analysis holds for the group \<open>g\<close> of the key column \<open>key\<close>:
  the number of present cells of the counted column \<open>idc\<close>, the sum and the mean of the
  churn flags, the mean scaled to a percentage after rounding, and the further
  aggregates \<open>extra\<close>, each under its column name.
\<close>

definition summary_row ::
  "dataframe \<Rightarrow> string \<Rightarrow> string \<Rightarrow> (string \<times> string \<times> aggfunc) list \<Rightarrow> cell
     \<Rightarrow> cell \<times> (string \<times> fl) list" where
  "summary_row d key idc extra g =
     (let rs = filter (\<lambda>r. r key = g) (rows d)
      in (g, (''Total_Customers'', Fin (of_nat (series_count (map (\<lambda>r. r idc) rs))))
           # (''Churned_Customers'', fround2 (Fin (series_sum (map (\<lambda>r. r ''Churn_Binary'') rs))))
           # (''Churn_Rate'', fscale (fround2 (series_mean (map (\<lambda>r. r ''Churn_Binary'') rs))) 100)
           # map (\<lambda>(n, c, f). (n, fround2 (aggregate f (map (\<lambda>r. r c) rs)))) extra))"

text \<open>The table once the segmentation has written its age column, and its tenure column.\<close>

definition with_age :: "dataframe \<Rightarrow> dataframe" where
  "with_age d = assign ''Age_Group'' (\<lambda>r. cut age_bins age_labels (r ''Age'')) d"

definition with_tenure :: "dataframe \<Rightarrow> dataframe" where
  "with_tenure d =
     assign ''Tenure_Group'' (\<lambda>r. cut tenure_bins tenure_labels (r ''Customer_Tenure_in_months'')) d"

text \<open>
  The further aggregates of the state, age and tenure tables, and of the device and plan
  tables: column name, source column and function.
\<close>

definition segment_extra :: "(string \<times> string \<times> aggfunc) list" where
  "segment_extra =
     [(''Total_Revenue'', ''Total_Revenue'', Sum), (''Avg_Satisfaction'', ''Satisfaction_Rate'', Mean)]"

definition device_extra :: "(string \<times> string \<times> aggfunc) list" where
  "device_extra =
     [(''Total_Revenue'', ''Total_Revenue'', Sum), (''Avg_Unit_Price'', ''Unit_Price'', Mean),
      (''Avg_Satisfaction'', ''Satisfaction_Rate'', Mean)]"

text \<open>The cells of a key column.\<close>

definition keys_of :: "dataframe \<Rightarrow> string \<Rightarrow> cell list" where
  "keys_of d key = map (\<lambda>r. r key) (rows d)"

text \<open>
  A finite value between 0 and 100.
\<close>

fun percent :: "fl \<Rightarrow> bool" where
  "percent (Fin v) = (0 \<le> v \<and> v \<le> 100)"
| "percent _ = False"

text \<open>
  The rows of a group, and those of them flagged as churned.
\<close>

definition group_size :: "dataframe \<Rightarrow> string \<Rightarrow> cell \<Rightarrow> nat" where
  "group_size d key g = length (filter (\<lambda>r. r key = g) (rows d))"

definition group_churned :: "dataframe \<Rightarrow> string \<Rightarrow> cell \<Rightarrow> nat" where
  "group_churned d key g =
     length (filter (\<lambda>r. r ''Churn_Binary'' = Num 1) (filter (\<lambda>r. r key = g) (rows d)))"

text \<open>
  Every churn flag of the table is 0 or 1, as \<^verbatim>\<open>_prepare_data\<close> leaves them.
\<close>

definition flagged :: "dataframe \<Rightarrow> bool" where
  "flagged d = binary (map (\<lambda>r. r ''Churn_Binary'') (rows d))"

text \<open>
  The churn rate stored for each group that has rows: a finite value between 0 and 100,
  and the exact percentage churned / total * 100 whenever that percentage is a whole
  number.
\<close>

definition rate_stored :: "dataframe \<Rightarrow> string \<Rightarrow> table \<Rightarrow> bool" where
  "rate_stored d key t =
     list_all (\<lambda>(g, nvs). 0 < group_size d key g \<longrightarrow>
        (case field ''Churn_Rate'' nvs of
           Fin v \<Rightarrow> 0 \<le> v \<and> v \<le> 100 \<and>
             (group_size d key g dvd 100 * group_churned d key g \<longrightarrow>
                v = of_nat (100 * group_churned d key g) / of_nat (group_size d key g))
         | _ \<Rightarrow> False)) t"

text \<open>
  Three customers of one state, one of them churned; the table has no column of churn
  reasons.
\<close>

definition region_example :: dataframe where
  "region_example =
     \<lparr>columns = [''Customer_ID'', ''State'', ''MTN_Device'', ''Subscription_Plan'', ''Age'',
                 ''Customer_Tenure_in_months'', ''Satisfaction_Rate'', ''Unit_Price'',
                 ''Total_Revenue'', ''Customer_Churn_Status''],
      rows = map (\<lambda>(i, a, t, s, v, st).
                    (\<lambda>c. Null)(''Customer_ID'' := i, ''State'' := Str ''Lagos'',
                      ''MTN_Device'' := Str ''4G Router'', ''Subscription_Plan'' := Str ''10GB+10mins Monthly Plan'',
                      ''Age'' := a, ''Customer_Tenure_in_months'' := t, ''Satisfaction_Rate'' := s,
                      ''Unit_Price'' := Num 35000, ''Total_Revenue'' := v,
                      ''Customer_Churn_Status'' := st))
               [(Str ''CUST0001'', Num 20, Num 0, Num 4, Num 100, Str ''No''),
                (Str ''CUST0002'', Num 30, Num 12, Num 2, Num 50, Str ''Yes''),
                (Str ''CUST0003'', Num 60, Num 30, Num 5, Num 30, Str ''No'')]\<rparr>"

text \<open>
  Every churn rate of the table is a percentage; with \<open>always = False\<close> this is asked
  only of the groups that have rows.
\<close>

definition rates_in_range :: "bool \<Rightarrow> dataframe \<Rightarrow> string \<Rightarrow> table \<Rightarrow> bool" where
  "rates_in_range always d key t =
     list_all (\<lambda>(g, nvs). always \<or> 0 < group_size d key g \<longrightarrow> percent (field ''Churn_Rate'' nvs)) t"

text \<open>
  A revenue cell that is not a negative number.
\<close>

fun nonneg :: "cell \<Rightarrow> bool" where
  "nonneg (Num x) = (0 \<le> x)"
| "nonneg _ = True"

text \<open>
  Two customers; the active one has a negative total revenue.
\<close>

definition refund_example :: dataframe where
  "refund_example =
     \<lparr>columns = [''Satisfaction_Rate'', ''Customer_Churn_Status'', ''Total_Revenue''],
      rows = map (\<lambda>(s, st, r). (\<lambda>c. Null)(''Satisfaction_Rate'' := s,
                    ''Customer_Churn_Status'' := st, ''Total_Revenue'' := r))
               [(Num 2, Str ''Yes'', Num 100), (Num 4, Str ''No'', Num (- 50))]\<rparr>"

text \<open>
  The sum of the customer counts that a grouped table holds.
\<close>

definition customers_counted :: "table \<Rightarrow> rat" where
  "customers_counted t =
     sum_list (map (\<lambda>(g, nvs). case field ''Total_Customers'' nvs of Fin v \<Rightarrow> v | _ \<Rightarrow> 0) t)"

text \<open>
  The customer counts of a grouped table add up to the rows whose key and whose counted
  cell are both present; when no row lacks either, to all rows.
\<close>

definition counts_rows :: "dataframe \<Rightarrow> string \<Rightarrow> string \<Rightarrow> table \<Rightarrow> bool" where
  "counts_rows d key idc t =
     (customers_counted t =
        of_nat (length (filter (\<lambda>r. r key \<noteq> Null \<and> r idc \<noteq> Null) (rows d))) \<and>
      (list_all (\<lambda>r. r key \<noteq> Null \<and> r idc \<noteq> Null) (rows d) \<longrightarrow>
         customers_counted t = of_nat (len d)))"

text \<open>
  Two customers of one state; the second has no customer identifier.
\<close>

definition id_gap_example :: dataframe where
  "id_gap_example =
     \<lparr>columns = [''Customer_ID'', ''State'', ''Satisfaction_Rate'', ''Total_Revenue'',
                 ''Customer_Churn_Status''],
      rows = map (\<lambda>(i, st). (\<lambda>c. Null)(''Customer_ID'' := i, ''State'' := Str ''Lagos'',
                    ''Satisfaction_Rate'' := Num 3, ''Total_Revenue'' := Num 100,
                    ''Customer_Churn_Status'' := st))
               [(Str ''CUST0001'', Str ''No''), (Null, Str ''Yes'')]\<rparr>"

text \<open>
  The two columns that the segmentation derives.
\<close>

definition derived :: "string \<Rightarrow> bool" where
  "derived c = (c = ''Age_Group'' \<or> c = ''Tenure_Group'')"

text \<open>
  What one analysis contributes to \<^verbatim>\<open>analysis_results\<close>: its result under its key when
  its \<^verbatim>\<open>try\<close> block succeeds, nothing when it fails.
\<close>

definition entry :: "string \<Rightarrow> ('a \<Rightarrow> result) \<Rightarrow> error + 'a \<Rightarrow> (string \<times> result) list" where
  "entry k wrap r = (case r of Inl e \<Rightarrow> [] | Inr v \<Rightarrow> [(k, wrap v)])"

definition reasons_entry ::
  "error + (cell \<times> nat \<times> fl) list option \<Rightarrow> (string \<times> result) list" where
  "reasons_entry r = (case r of Inr (Some t) \<Rightarrow> [(''churn_reasons'', ChurnReasons t)] | _ \<Rightarrow> [])"

text \<open>
  Storing entries one after the other, as \<^verbatim>\<open>self.analysis_results[k] = v\<close> does.
\<close>

definition stores :: "(string \<times> result) list \<Rightarrow> (string \<times> result) list \<Rightarrow> (string \<times> result) list" where
  "stores kvs rs = fold (\<lambda>(k, v). AList.update k v) kvs rs"

text \<open>
  The entries that one full run over the table \<open>d\<close> stores, in the order of the run: the
  analyses after the segmentation read the table that the segmentation leaves.
\<close>

definition entries :: "bool \<Rightarrow> dataframe \<Rightarrow> (string \<times> result) list" where
  "entries observed d =
     entry ''primary_kpis'' PrimaryKpis (primary_kpis d) @
     entry ''satisfaction_analysis'' (\<lambda>(c, t). SatisfactionAnalysis c t) (satisfaction_summary d) @
     entry ''geographic_analysis'' (\<lambda>(g, h, a). GeographicAnalysis g h a) (geographic d) @
     entry ''device_analysis'' DeviceAnalysis (device_summary d) @
     entry ''segmentation_analysis'' (\<lambda>(a, t, p). SegmentationAnalysis a t p)
       (snd (segmentation observed d)) @
     reasons_entry (churn_reasons (fst (segmentation observed d))) @
     entry ''predictive_analytics'' PredictiveAnalytics
       (predictive_metrics (fst (segmentation observed d)))"

text \<open>
  The three customers again, in a table that already has a column named Age_Group.
\<close>

definition relabel_example :: dataframe where
  "relabel_example =
     \<lparr>columns = columns region_example @ [''Age_Group''],
      rows = map (\<lambda>r. r(''Age_Group'' := Str ''adult'')) (rows region_example)\<rparr>"

text \<open>
  The table \<open>d'\<close> has the rows of \<open>d\<close>, every column of \<open>d\<close>, the same cells in every
  column other than the two derived ones, and no new column other than those two.
\<close>

definition untouched :: "dataframe \<Rightarrow> dataframe \<Rightarrow> bool" where
  "untouched d d' =
     (len d' = len d \<and>
      (\<forall>c. \<not> derived c \<longrightarrow> col d' c = col d c) \<and>
      set (columns d) \<subseteq> set (columns d') \<and>
      set (columns d') \<subseteq> set (columns d) \<union> {''Age_Group'', ''Tenure_Group''})"

section \<open>Basic facts\<close>

lemma bind_Inr [simp]: "bind (Inr x) f = f x"
  by (simp add: bind_def)

lemma bind_Inl [simp]: "bind (Inl e) f = Inl e"
  by (simp add: bind_def)

lemma col_present: "c \<in> set (columns d) \<Longrightarrow> col d c = Inr (map (\<lambda>r. r c) (rows d))"
  by (simp add: col_def)

lemma col_absent: "c \<notin> set (columns d) \<Longrightarrow> col d c = Inl (KeyError c)"
  by (simp add: col_def)

lemma columns_select [simp]: "columns (select p d) = columns d"
  by (simp add: select_def)

lemma rows_select [simp]: "rows (select p d) = filter p (rows d)"
  by (simp add: select_def)

lemma set_columns_assign: "set (columns (assign c f d)) = insert c (set (columns d))"
  by (auto simp: assign_def)

lemma rows_assign: "rows (assign c f d) = map (\<lambda>r. r(c := f r)) (rows d)"
  by (simp add: assign_def)

lemma columns_coerce_column [simp]: "columns (coerce_column f c d) = columns d"
  by (simp add: coerce_column_def assign_def)

lemma length_rows_coerce_column [simp]:
  "length (rows (coerce_column f c d)) = length (rows d)"
  by (simp add: coerce_column_def assign_def)

lemma coerce_column_other:
  "x \<noteq> c \<Longrightarrow> map (\<lambda>r. r x) (rows (coerce_column f c d)) = map (\<lambda>r. r x) (rows d)"
  by (simp add: coerce_column_def assign_def)

lemma columns_fold_coerce [simp]: "columns (fold (coerce_column f) cs d) = columns d"
  by (induction cs arbitrary: d) simp_all

lemma length_rows_fold_coerce [simp]:
  "length (rows (fold (coerce_column f) cs d)) = length (rows d)"
  by (induction cs arbitrary: d) simp_all

lemma fold_coerce_other:
  "x \<notin> set cs \<Longrightarrow>
   map (\<lambda>r. r x) (rows (fold (coerce_column f) cs d)) = map (\<lambda>r. r x) (rows d)"
  by (induction cs arbitrary: d) (simp_all add: coerce_column_other)

lemma status_not_numeric: "''Customer_Churn_Status'' \<notin> set numeric_columns"
  by (simp add: numeric_columns_def)

lemma len_prepare_data: "len (prepare_data dt parse raw) = len raw"
  by (simp add: prepare_data_def len_def Let_def rows_assign)

lemma columns_prepare_data:
  "set (columns (prepare_data dt parse raw)) =
     (if ''Customer_Churn_Status'' \<in> set (columns raw)
      then insert ''Churn_Binary'' (set (columns raw)) else set (columns raw))"
  by (simp add: prepare_data_def Let_def set_columns_assign)

lemma flags_prepare_data:
  assumes "''Customer_Churn_Status'' \<in> set (columns raw)"
  shows "map (\<lambda>r. r ''Churn_Binary'') (rows (prepare_data dt parse raw)) =
         map (\<lambda>r. churn_binary (r ''Customer_Churn_Status'')) (rows raw)"
proof -
  let ?d1 = "coerce_column dt ''Date_of_Purchase'' raw"
  let ?d2 = "fold (coerce_column (to_numeric parse)) numeric_columns ?d1"
  have "map (\<lambda>r. r ''Customer_Churn_Status'') (rows ?d2) =
        map (\<lambda>r. r ''Customer_Churn_Status'') (rows ?d1)"
    by (rule fold_coerce_other [OF status_not_numeric])
  also have "\<dots> = map (\<lambda>r. r ''Customer_Churn_Status'') (rows raw)"
    by (rule coerce_column_other) simp
  finally have st: "map (\<lambda>r. r ''Customer_Churn_Status'') (rows ?d2) =
        map (\<lambda>r. r ''Customer_Churn_Status'') (rows raw)" .
  have "map (\<lambda>r. r ''Churn_Binary'') (rows (prepare_data dt parse raw)) =
        map churn_binary (map (\<lambda>r. r ''Customer_Churn_Status'') (rows ?d2))"
    using assms by (simp add: prepare_data_def Let_def rows_assign comp_def)
  also have "\<dots> = map churn_binary (map (\<lambda>r. r ''Customer_Churn_Status'') (rows raw))"
    by (simp only: st)
  finally show ?thesis by (simp add: comp_def)
qed

lemma churn_binary_cases: "churn_binary c = Num 0 \<or> churn_binary c = Num 1"
  by (cases c) (simp_all add: churn_binary_def)

lemma binary_prepare_data:
  "''Customer_Churn_Status'' \<in> set (columns raw) \<Longrightarrow>
   binary (map (\<lambda>r. r ''Churn_Binary'') (rows (prepare_data dt parse raw)))"
  by (simp only: flags_prepare_data) (auto simp: binary_def list_all_iff churn_binary_cases)

lemma binary_partition:
  "binary fs \<Longrightarrow> length (filter (\<lambda>c. c = Num 1) fs) + length (filter (\<lambda>c. c = Num 0) fs) = length fs"
  by (induction fs) (auto simp: binary_def)

lemma binary_sum:
  "binary fs \<Longrightarrow> series_sum fs = of_nat (length (filter (\<lambda>c. c = Num 1) fs))"
  by (induction fs) (auto simp: binary_def series_sum_def)

lemma filter_rows_flag:
  "length (filter (\<lambda>r. r c = v) rs) = length (filter (\<lambda>x. x = v) (map (\<lambda>r. r c) rs))"
  by (simp add: filter_map comp_def)

lemma trunc_of_nat [simp]: "trunc (of_nat n) = int n"
  by (simp add: trunc_def)

lemma primary_kpis_run:
  assumes cb: "''Churn_Binary'' \<in> set (columns d)"
    and tr: "''Total_Revenue'' \<in> set (columns d)"
    and sr: "''Satisfaction_Rate'' \<in> set (columns d)"
  shows "primary_kpis d =
     Inr \<lparr>total_customers = len d,
          churned_customers = trunc (series_sum (map (\<lambda>r. r ''Churn_Binary'') (rows d))),
          churn_rate = fround2 (fscale (fdiv (series_sum (map (\<lambda>r. r ''Churn_Binary'') (rows d)))
                         (of_nat (len d))) 100),
          revenue_at_risk = series_sum (map (\<lambda>r. r ''Total_Revenue'')
                              (filter (\<lambda>r. r ''Churn_Binary'' = Num 1) (rows d))),
          total_revenue = series_sum (map (\<lambda>r. r ''Total_Revenue'') (rows d)),
          revenue_risk_percentage =
            fround2 (fscale (fdiv (series_sum (map (\<lambda>r. r ''Total_Revenue'')
                              (filter (\<lambda>r. r ''Churn_Binary'' = Num 1) (rows d))))
                       (series_sum (map (\<lambda>r. r ''Total_Revenue'') (rows d)))) 100),
          avg_satisfaction = fround2 (series_mean (map (\<lambda>r. r ''Satisfaction_Rate'') (rows d))),
          active_customers = int (len d) - trunc (series_sum (map (\<lambda>r. r ''Churn_Binary'') (rows d)))\<rparr>"
  using assms by (simp add: primary_kpis_def col_present Let_def)

lemma fdiv_pos: "b \<noteq> 0 \<Longrightarrow> fdiv a b = Fin (a / b)"
  by (simp add: fdiv_def)

lemma round2_zero [simp]: "round2 0 = 0"
  by (simp add: round2_def round_half_even_def)

lemma predictive_metrics_empty_cohort:
  assumes "''Satisfaction_Rate'' \<in> set (columns d)" "''Total_Revenue'' \<in> set (columns d)"
    "''Customer_Tenure_in_months'' \<in> set (columns d)"
    and "len (select (\<lambda>r. cell_lt (r ''Customer_Tenure_in_months'') 6) d) = 0"
  shows "\<exists>p. predictive_metrics d = Inr p \<and> new_customer_churn_rate p = Fin 0"
  using assms by (simp add: predictive_metrics_def col_present Let_def)

section \<open>Facts about rounding and grouping\<close>

lemma round_half_even_of_int [simp]: "round_half_even (of_int n) = n"
  by (simp add: round_half_even_def)

lemma round2_of_int [simp]: "round2 (of_int n) = of_int n"
proof -
  have "(of_int n :: rat) * 100 = of_int (n * 100)" by simp
  then have "round_half_even (of_int n * 100) = n * 100"
    by (simp only: round_half_even_of_int)
  then show ?thesis by (simp add: round2_def)
qed

lemma round2_of_nat [simp]: "round2 (of_nat n) = of_nat n"
  using round2_of_int [of "int n"] by simp

lemma round_half_even_lower: "of_int n \<le> y \<Longrightarrow> n \<le> round_half_even y"
proof -
  assume "of_int n \<le> y"
  then have "n \<le> \<lfloor>y\<rfloor>" by (simp add: le_floor_iff)
  then show ?thesis by (simp add: round_half_even_def Let_def)
qed

lemma round_half_even_upper: "y \<le> of_int n \<Longrightarrow> round_half_even y \<le> n"
proof -
  assume le: "y \<le> of_int n"
  then have fl: "\<lfloor>y\<rfloor> \<le> n" by (simp add: floor_le_iff)
  show ?thesis
  proof (cases "\<lfloor>y\<rfloor> = n")
    case True
    with le have "y = of_int \<lfloor>y\<rfloor>"
      using of_int_floor_le [of y] by simp
    then have "y - of_int \<lfloor>y\<rfloor> = 0" by simp
    then show ?thesis using True by (simp add: round_half_even_def Let_def)
  next
    case False
    with fl have "\<lfloor>y\<rfloor> + 1 \<le> n" by simp
    then show ?thesis by (simp add: round_half_even_def Let_def)
  qed
qed

lemma round2_unit: "0 \<le> x \<Longrightarrow> x \<le> 1 \<Longrightarrow> 0 \<le> round2 x \<and> round2 x \<le> 1"
proof -
  assume "0 \<le> x" "x \<le> 1"
  then have "of_int 0 \<le> x * 100" "x * 100 \<le> of_int 100" by simp_all
  then have "0 \<le> round_half_even (x * 100)" "round_half_even (x * 100) \<le> 100"
    by (simp_all only: round_half_even_lower round_half_even_upper)
  then show ?thesis by (simp add: round2_def)
qed

lemma round2_percent: "0 \<le> x \<Longrightarrow> x \<le> 100 \<Longrightarrow> 0 \<le> round2 x \<and> round2 x \<le> 100"
proof -
  assume "0 \<le> x" "x \<le> 100"
  then have "of_int 0 \<le> x * 100" "x * 100 \<le> of_int 10000" by simp_all
  then have "0 \<le> round_half_even (x * 100)" "round_half_even (x * 100) \<le> 10000"
    by (simp_all only: round_half_even_lower round_half_even_upper)
  then show ?thesis by (simp add: round2_def)
qed

lemma nums_binary: "binary fs \<Longrightarrow> length (nums fs) = length fs"
  by (induction fs) (auto simp: binary_def)

lemma binary_mean:
  assumes "binary fs" "fs \<noteq> []"
  shows "series_mean fs = Fin (of_nat (length (filter (\<lambda>c. c = Num 1) fs)) / of_nat (length fs))"
proof -
  from assms have "nums fs \<noteq> []"
    using nums_binary [of fs] by auto
  moreover have "sum_list (nums fs) = of_nat (length (filter (\<lambda>c. c = Num 1) fs))"
    using binary_sum [OF assms(1)] by (simp add: series_sum_def)
  ultimately show ?thesis
    by (simp add: series_mean_def nums_binary [OF assms(1)])
qed

lemma group_of_rows:
  "group_of g (map (\<lambda>r. r k) rs) (map (\<lambda>r. r c) rs) = map (\<lambda>r. r c) (filter (\<lambda>r. r k = g) rs)"
  by (induction rs) (simp_all add: group_of_def)

lemma groupby_agg_churn:
  assumes "col d key = Inr ks" "col d c1 = Inr ids" "col d ''Churn_Binary'' = Inr fs"
    "cols d (map fst specs) = Inr vss"
  shows "groupby_agg grouper d key
           ((c1, Count) # (''Churn_Binary'', Sum) # (''Churn_Binary'', Mean) # specs) =
     Inr (map (\<lambda>g. (g, Fin (of_nat (series_count (group_of g ks ids)))
                    # Fin (series_sum (group_of g ks fs))
                    # series_mean (group_of g ks fs)
                    # map (\<lambda>(f, vs). aggregate f (group_of g ks vs)) (zip (map snd specs) vss)))
            (grouper ks))"
  by (simp add: groupby_agg_def assms)

lemma summary_fields:
  assumes "(g, nvs) \<in> set (scale_column ''Churn_Rate'' 100
             (set_columns (''Total_Customers'' # ''Churned_Customers'' # ''Churn_Rate'' # names)
                (round_frame (map (\<lambda>g. (g, a g # b g # c g # r g)) gs))))"
  shows "g \<in> set gs \<and> field ''Total_Customers'' nvs = fround2 (a g) \<and>
         field ''Churned_Customers'' nvs = fround2 (b g) \<and>
         field ''Churn_Rate'' nvs = fscale (fround2 (c g)) 100"
  using assms by (auto simp: scale_column_def set_columns_def round_frame_def field_def)

lemma summary_keys:
  "map fst (scale_column c k (set_columns names (round_frame t))) = map fst t"
  by (simp add: scale_column_def set_columns_def round_frame_def comp_def split_def)

lemma summary_row_fun:
  "summary_row d key idc extra =
     (\<lambda>g. (g, (''Total_Customers'', Fin (of_nat (series_count (map (\<lambda>r. r idc) (filter (\<lambda>r. r key = g) (rows d))))))
           # (''Churned_Customers'', fround2 (Fin (series_sum (map (\<lambda>r. r ''Churn_Binary'') (filter (\<lambda>r. r key = g) (rows d))))))
           # (''Churn_Rate'', fscale (fround2 (series_mean (map (\<lambda>r. r ''Churn_Binary'') (filter (\<lambda>r. r key = g) (rows d))))) 100)
           # map (\<lambda>(n, c, f). (n, fround2 (aggregate f (map (\<lambda>r. r c) (filter (\<lambda>r. r key = g) (rows d)))))) extra))"
  by (rule ext) (simp add: summary_row_def Let_def)

lemmas pipeline_defs = groupby_agg_def round_frame_def set_columns_def scale_column_def
  summary_row_fun keys_of_def group_of_rows Let_def comp_def

lemma state_summary_rows:
  assumes "{''State'', ''Customer_ID'', ''Churn_Binary'', ''Total_Revenue'', ''Satisfaction_Rate''}
             \<subseteq> set (columns d)"
  shows "state_summary d =
     Inr (sort_values_desc ''Churn_Rate''
            (map (summary_row d ''State'' ''Customer_ID''
                    segment_extra)
                 (group_keys (keys_of d ''State''))))"
  using assms by (simp add: state_summary_def col_present pipeline_defs segment_extra_def)

lemma state_summary_needs:
  "state_summary d = Inr t \<Longrightarrow>
   {''State'', ''Customer_ID'', ''Churn_Binary'', ''Total_Revenue'', ''Satisfaction_Rate''}
     \<subseteq> set (columns d)"
  by (simp add: state_summary_def groupby_agg_def col_def bind_def split: if_splits sum.splits)

lemma satisfaction_summary_rows:
  assumes "{''Satisfaction_Rate'', ''Churn_Binary'', ''Total_Revenue''} \<subseteq> set (columns d)"
  shows "satisfaction_summary d =
     Inr (size_unstack (keys_of d ''Satisfaction_Rate'') (keys_of d ''Churn_Binary''),
          map (summary_row d ''Satisfaction_Rate'' ''Churn_Binary''
                 [(''Total_Revenue'', ''Total_Revenue'', Sum)])
              (group_keys (keys_of d ''Satisfaction_Rate'')))"
  using assms by (simp add: satisfaction_summary_def col_present pipeline_defs)

lemma satisfaction_summary_needs:
  "satisfaction_summary d = Inr t \<Longrightarrow>
   {''Satisfaction_Rate'', ''Churn_Binary'', ''Total_Revenue''} \<subseteq> set (columns d)"
  by (simp add: satisfaction_summary_def groupby_agg_def col_def bind_def split: if_splits sum.splits)

lemma device_summary_rows:
  assumes "{''MTN_Device'', ''Customer_ID'', ''Churn_Binary'', ''Total_Revenue'', ''Unit_Price'',
            ''Satisfaction_Rate''} \<subseteq> set (columns d)"
  shows "device_summary d =
     Inr (sort_values_desc ''Churn_Rate''
            (map (summary_row d ''MTN_Device'' ''Customer_ID'' device_extra)
                 (group_keys (keys_of d ''MTN_Device''))))"
  using assms by (simp add: device_summary_def col_present pipeline_defs device_extra_def)

lemma device_summary_needs:
  "device_summary d = Inr t \<Longrightarrow>
   {''MTN_Device'', ''Customer_ID'', ''Churn_Binary'', ''Total_Revenue'', ''Unit_Price'',
    ''Satisfaction_Rate''} \<subseteq> set (columns d)"
  by (simp add: device_summary_def groupby_agg_def col_def bind_def split: if_splits sum.splits)

lemma plan_summary_rows:
  assumes "{''Subscription_Plan'', ''Customer_ID'', ''Churn_Binary'', ''Total_Revenue'', ''Unit_Price'',
            ''Satisfaction_Rate''} \<subseteq> set (columns d)"
  shows "plan_summary d =
     Inr (map (summary_row d ''Subscription_Plan'' ''Customer_ID'' device_extra)
              (group_keys (keys_of d ''Subscription_Plan'')))"
  using assms by (simp add: plan_summary_def col_present pipeline_defs device_extra_def)

lemma plan_summary_needs:
  "plan_summary d = Inr t \<Longrightarrow>
   {''Subscription_Plan'', ''Customer_ID'', ''Churn_Binary'', ''Total_Revenue'', ''Unit_Price'',
    ''Satisfaction_Rate''} \<subseteq> set (columns d)"
  by (simp add: plan_summary_def groupby_agg_def col_def bind_def split: if_splits sum.splits)

lemma age_summary_rows:
  assumes "{''Age_Group'', ''Customer_ID'', ''Churn_Binary'', ''Total_Revenue'', ''Satisfaction_Rate''}
             \<subseteq> set (columns d)"
  shows "age_summary observed d =
     Inr (map (summary_row d ''Age_Group'' ''Customer_ID'' segment_extra)
              (category_keys observed age_labels (keys_of d ''Age_Group'')))"
  using assms
  by (simp add: age_summary_def col_present pipeline_defs segment_extra_def segment_specs_def
      segment_columns_def)

lemma age_summary_needs:
  "age_summary observed d = Inr t \<Longrightarrow>
   {''Age_Group'', ''Customer_ID'', ''Churn_Binary'', ''Total_Revenue'', ''Satisfaction_Rate''}
     \<subseteq> set (columns d)"
  by (simp add: age_summary_def groupby_agg_def col_def bind_def segment_specs_def
      split: if_splits sum.splits)

lemma tenure_summary_rows:
  assumes "{''Tenure_Group'', ''Customer_ID'', ''Churn_Binary'', ''Total_Revenue'', ''Satisfaction_Rate''}
             \<subseteq> set (columns d)"
  shows "tenure_summary observed d =
     Inr (map (summary_row d ''Tenure_Group'' ''Customer_ID'' segment_extra)
              (category_keys observed tenure_labels (keys_of d ''Tenure_Group'')))"
  using assms
  by (simp add: tenure_summary_def col_present pipeline_defs segment_extra_def segment_specs_def
      segment_columns_def)

lemma tenure_summary_needs:
  "tenure_summary observed d = Inr t \<Longrightarrow>
   {''Tenure_Group'', ''Customer_ID'', ''Churn_Binary'', ''Total_Revenue'', ''Satisfaction_Rate''}
     \<subseteq> set (columns d)"
  by (simp add: tenure_summary_def groupby_agg_def col_def bind_def segment_specs_def
      split: if_splits sum.splits)

lemma columns_with_age: "set (columns (with_age d)) = insert ''Age_Group'' (set (columns d))"
  by (simp add: with_age_def set_columns_assign)

lemma columns_with_tenure: "set (columns (with_tenure d)) = insert ''Tenure_Group'' (set (columns d))"
  by (simp add: with_tenure_def set_columns_assign)

lemma keys_of_assign: "c \<noteq> key \<Longrightarrow> keys_of (assign c f d) key = keys_of d key"
  by (simp add: keys_of_def rows_assign)

lemma group_column_assign:
  "c \<noteq> key \<Longrightarrow> c \<noteq> x \<Longrightarrow>
   map (\<lambda>r. r x) (filter (\<lambda>r. r key = g) (rows (assign c f d))) =
   map (\<lambda>r. r x) (filter (\<lambda>r. r key = g) (rows d))"
  by (simp add: rows_assign filter_map comp_def)

lemma summary_row_assign:
  assumes "c \<noteq> key" "c \<noteq> idc" "c \<noteq> ''Churn_Binary''" "\<forall>(n, x, a) \<in> set extra. c \<noteq> x"
  shows "summary_row (assign c f d) key idc extra g = summary_row d key idc extra g"
proof -
  have "map (\<lambda>(n, x, a). (n, fround2 (aggregate a (map (\<lambda>r. r x) (filter (\<lambda>r. r key = g) (rows (assign c f d))))))) extra =
        map (\<lambda>(n, x, a). (n, fround2 (aggregate a (map (\<lambda>r. r x) (filter (\<lambda>r. r key = g) (rows d)))))) extra"
    using assms(1,4) by (intro map_cong refl) (auto simp: group_column_assign)
  then show ?thesis
    using assms(1-3) by (simp add: summary_row_def Let_def group_column_assign)
qed

lemma segmentation_rows:
  assumes "{''Age'', ''Customer_ID'', ''Churn_Binary'', ''Total_Revenue'', ''Satisfaction_Rate'',
            ''Customer_Tenure_in_months'', ''Subscription_Plan'', ''Unit_Price''} \<subseteq> set (columns d)"
  shows "segmentation observed d =
     (with_tenure (with_age d),
      Inr (map (summary_row (with_tenure (with_age d)) ''Age_Group'' ''Customer_ID'' segment_extra)
             (category_keys observed age_labels (keys_of (with_tenure (with_age d)) ''Age_Group'')),
           map (summary_row (with_tenure (with_age d)) ''Tenure_Group'' ''Customer_ID'' segment_extra)
             (category_keys observed tenure_labels (keys_of (with_tenure (with_age d)) ''Tenure_Group'')),
           map (summary_row (with_tenure (with_age d)) ''Subscription_Plan'' ''Customer_ID'' device_extra)
             (group_keys (keys_of (with_tenure (with_age d)) ''Subscription_Plan''))))"
proof -
  let ?d1 = "with_age d" and ?d2 = "with_tenure (with_age d)"
  have age: "age_summary observed ?d1 =
     Inr (map (summary_row ?d1 ''Age_Group'' ''Customer_ID'' segment_extra)
              (category_keys observed age_labels (keys_of ?d1 ''Age_Group'')))"
    using assms by (intro age_summary_rows) (simp add: columns_with_age)
  have tenure: "tenure_summary observed ?d2 =
     Inr (map (summary_row ?d2 ''Tenure_Group'' ''Customer_ID'' segment_extra)
              (category_keys observed tenure_labels (keys_of ?d2 ''Tenure_Group'')))"
    using assms by (intro tenure_summary_rows) (simp add: columns_with_age columns_with_tenure)
  have plan: "plan_summary ?d2 =
     Inr (map (summary_row ?d2 ''Subscription_Plan'' ''Customer_ID'' device_extra)
              (group_keys (keys_of ?d2 ''Subscription_Plan'')))"
    using assms by (intro plan_summary_rows) (simp add: columns_with_age columns_with_tenure)
  have same_row: "summary_row ?d2 ''Age_Group'' ''Customer_ID'' segment_extra =
                  summary_row ?d1 ''Age_Group'' ''Customer_ID'' segment_extra"
    unfolding with_tenure_def
    by (rule ext, rule summary_row_assign) (simp_all add: segment_extra_def)
  have same_keys: "keys_of ?d2 ''Age_Group'' = keys_of ?d1 ''Age_Group''"
    unfolding with_tenure_def by (rule keys_of_assign) simp
  have a: "col d ''Age'' = Inr (keys_of d ''Age'')"
    using assms by (simp add: col_present keys_of_def)
  have t: "col ?d1 ''Customer_Tenure_in_months'' = Inr (keys_of ?d1 ''Customer_Tenure_in_months'')"
    using assms by (simp add: col_present keys_of_def columns_with_age)
  show ?thesis
    unfolding segmentation_def a sum.case Let_def
      with_age_def [symmetric] age t with_tenure_def [symmetric] tenure plan
    by (simp add: same_row same_keys)
qed

lemma segmentation_needs:
  assumes "segmentation observed d = (d', Inr x)"
  shows "{''Age'', ''Customer_ID'', ''Churn_Binary'', ''Total_Revenue'', ''Satisfaction_Rate'',
          ''Customer_Tenure_in_months'', ''Subscription_Plan'', ''Unit_Price''} \<subseteq> set (columns d)"
proof -
  from assms obtain ks where a: "col d ''Age'' = Inr ks"
    by (cases "col d ''Age''") (simp_all add: segmentation_def)
  from assms a obtain age where age: "age_summary observed (with_age d) = Inr age"
    by (cases "age_summary observed (with_age d)")
       (simp_all add: segmentation_def Let_def with_age_def)
  from assms a age obtain ts where t: "col (with_age d) ''Customer_Tenure_in_months'' = Inr ts"
    by (cases "col (with_age d) ''Customer_Tenure_in_months''")
       (simp_all add: segmentation_def Let_def with_age_def)
  from assms a age t obtain tenure where
    tenure: "tenure_summary observed (with_tenure (with_age d)) = Inr tenure"
    by (cases "tenure_summary observed (with_tenure (with_age d))")
       (simp_all add: segmentation_def Let_def with_age_def with_tenure_def)
  from assms a age t tenure obtain plan where
    plan: "plan_summary (with_tenure (with_age d)) = Inr plan"
    by (cases "plan_summary (with_tenure (with_age d))")
       (simp_all add: segmentation_def Let_def with_age_def with_tenure_def)
  from a have "''Age'' \<in> set (columns d)"
    by (simp add: col_def split: if_splits)
  moreover from t have "''Customer_Tenure_in_months'' \<in> set (columns d)"
    by (simp add: col_def columns_with_age split: if_splits)
  moreover from age_summary_needs [OF age]
  have "{''Customer_ID'', ''Churn_Binary'', ''Total_Revenue'', ''Satisfaction_Rate''} \<subseteq> set (columns d)"
    by (simp add: columns_with_age)
  moreover from plan_summary_needs [OF plan]
  have "{''Subscription_Plan'', ''Unit_Price''} \<subseteq> set (columns d)"
    by (simp add: columns_with_age columns_with_tenure)
  ultimately show ?thesis by simp
qed


lemma binary_filter: "binary (map f rs) \<Longrightarrow> binary (map f (filter p rs))"
  by (induction rs) (auto simp: binary_def)

lemma summary_row_rate:
  assumes "flagged d" "0 < group_size d key g"
  shows "field ''Churn_Rate'' (snd (summary_row d key idc extra g)) =
         Fin (round2 (of_nat (group_churned d key g) / of_nat (group_size d key g)) * 100)"
proof -
  let ?rs = "filter (\<lambda>r. r key = g) (rows d)"
  let ?fs = "map (\<lambda>r. r ''Churn_Binary'') ?rs"
  have b: "binary ?fs"
    using assms(1) unfolding flagged_def by (rule binary_filter)
  have ne: "?fs \<noteq> []"
    using assms(2) by (auto simp: group_size_def)
  have "series_mean ?fs =
        Fin (of_nat (length (filter (\<lambda>c. c = Num 1) ?fs)) / of_nat (length ?fs))"
    by (rule binary_mean [OF b ne])
  also have "length (filter (\<lambda>c. c = Num 1) ?fs) = group_churned d key g"
    by (simp add: group_churned_def filter_map comp_def)
  also have "length ?fs = group_size d key g"
    by (simp add: group_size_def)
  finally show ?thesis
    by (simp add: summary_row_def Let_def field_def)
qed

lemma churned_le_size: "group_churned d key g \<le> group_size d key g"
  unfolding group_churned_def group_size_def by (rule length_filter_le)

lemma summary_row_percent:
  assumes "flagged d" "0 < group_size d key g"
  shows "percent (field ''Churn_Rate'' (snd (summary_row d key idc extra g)))"
proof -
  let ?x = "(of_nat (group_churned d key g) :: rat) / of_nat (group_size d key g)"
  have "0 \<le> ?x" by simp
  moreover have "?x \<le> 1"
    using assms(2) churned_le_size [of d key g] by (simp add: divide_le_eq_1)
  ultimately have "0 \<le> round2 ?x \<and> round2 ?x \<le> 1"
    by (rule round2_unit)
  then show ?thesis
    by (simp add: summary_row_rate [OF assms])
qed

lemma round2_exact:
  assumes "0 < n" "n dvd 100 * m"
  shows "round2 (of_nat m / of_nat n) * 100 = of_nat (100 * m) / of_nat n"
proof -
  from assms(2) obtain k where k: "100 * m = n * k" by (auto simp: dvd_def)
  then have "(of_nat (100 * m) :: rat) = of_nat (n * k)" by simp
  then have q: "(of_nat m :: rat) * 100 / of_nat n = of_nat k"
    using assms(1) by (simp add: field_simps)
  have "round_half_even (of_nat m / of_nat n * 100) = int k"
    using q round_half_even_of_int [of "int k"] by simp
  then have "round2 (of_nat m / of_nat n) * 100 = of_nat k"
    by (simp add: round2_def)
  also have "\<dots> = of_nat (100 * m) / of_nat n"
    using q by (simp add: mult.commute)
  finally show ?thesis .
qed

lemma flagged_assign: "c \<noteq> ''Churn_Binary'' \<Longrightarrow> flagged (assign c f d) = flagged d"
  by (simp add: flagged_def rows_assign comp_def)

lemma flagged_prepare_data:
  "''Customer_Churn_Status'' \<in> set (columns raw) \<Longrightarrow> flagged (prepare_data dt parse raw)"
  unfolding flagged_def by (rule binary_prepare_data)

lemma set_group_keys: "set (group_keys ks) = set ks - {Null}"
  by (auto simp: group_keys_def)

lemma distinct_group_keys: "distinct (group_keys ks)"
  by (simp add: group_keys_def)

lemma group_keys_size: "g \<in> set (group_keys (keys_of d key)) \<Longrightarrow> 0 < group_size d key g"
  by (auto simp: set_group_keys keys_of_def group_size_def filter_empty_conv)

lemma observed_keys_size:
  "g \<in> set (category_keys True labels (keys_of d key)) \<Longrightarrow> 0 < group_size d key g"
  by (auto simp: category_keys_def keys_of_def group_size_def filter_empty_conv)

lemma set_sort_values_desc [simp]: "set (sort_values_desc c t) = set t"
  by (simp add: sort_values_desc_def)

lemma fst_summary_row [simp]: "fst (summary_row d key idc extra g) = g"
  by (simp add: summary_row_def Let_def)

lemma rate_stored_rows:
  assumes "flagged d" "set t \<subseteq> range (summary_row d key idc extra)"
  shows "rate_stored d key t"
proof -
  have "0 \<le> v \<and> v \<le> 100 \<and>
        (group_size d key g dvd 100 * group_churned d key g \<longrightarrow>
           v = of_nat (100 * group_churned d key g) / of_nat (group_size d key g))"
    if pos: "0 < group_size d key g"
      and v: "v = round2 (of_nat (group_churned d key g) / of_nat (group_size d key g)) * 100"
    for g v
  proof -
    let ?x = "(of_nat (group_churned d key g) :: rat) / of_nat (group_size d key g)"
    have "0 \<le> ?x" by simp
    moreover have "?x \<le> 1"
      using pos churned_le_size [of d key g] by (simp add: divide_le_eq_1)
    ultimately have "0 \<le> round2 ?x \<and> round2 ?x \<le> 1"
      by (rule round2_unit)
    then show ?thesis
      using round2_exact [OF pos] by (simp add: v)
  qed
  note core = this
  show ?thesis
    unfolding rate_stored_def list_all_iff
  proof (intro ballI)
    fix row assume "row \<in> set t"
    with assms(2) obtain g where row: "row = summary_row d key idc extra g" by auto
    obtain g' nvs where p: "row = (g', nvs)" by (cases row)
    from row p have g': "g' = g" and nvs: "nvs = snd (summary_row d key idc extra g)"
      by (simp_all add: summary_row_def Let_def)
    show "case row of (g, nvs) \<Rightarrow> 0 < group_size d key g \<longrightarrow>
        (case field ''Churn_Rate'' nvs of
           Fin v \<Rightarrow> 0 \<le> v \<and> v \<le> 100 \<and>
             (group_size d key g dvd 100 * group_churned d key g \<longrightarrow>
                v = of_nat (100 * group_churned d key g) / of_nat (group_size d key g))
         | _ \<Rightarrow> False)"
      unfolding p prod.case g' nvs
    proof
      assume pos: "0 < group_size d key g"
      show "case field ''Churn_Rate'' (snd (summary_row d key idc extra g)) of
           Fin v \<Rightarrow> 0 \<le> v \<and> v \<le> 100 \<and>
             (group_size d key g dvd 100 * group_churned d key g \<longrightarrow>
                v = of_nat (100 * group_churned d key g) / of_nat (group_size d key g))
         | _ \<Rightarrow> False"
        unfolding summary_row_rate [OF assms(1) pos] fl.case
        by (rule core [OF pos refl])
    qed
  qed
qed

lemma rate_stored_map:
  "flagged d \<Longrightarrow> rate_stored d key (map (summary_row d key idc extra) gs)"
  by (rule rate_stored_rows) auto

lemma rate_stored_sorted:
  "flagged d \<Longrightarrow>
   rate_stored d key (sort_values_desc c (map (summary_row d key idc extra) gs))"
  by (rule rate_stored_rows) auto

lemma rates_in_range_rows:
  assumes "flagged d" "always \<longrightarrow> (\<forall>g \<in> set gs. 0 < group_size d key g)"
    and "set t \<subseteq> summary_row d key idc extra ` set gs"
  shows "rates_in_range always d key t"
  unfolding rates_in_range_def list_all_iff
proof (intro ballI)
  fix row assume "row \<in> set t"
  with assms(3) obtain g where g: "g \<in> set gs" and row: "row = summary_row d key idc extra g"
    by auto
  obtain g' nvs where p: "row = (g', nvs)" by (cases row)
  from row p have g': "g' = g" and nvs: "nvs = snd (summary_row d key idc extra g)"
    by (simp_all add: summary_row_def Let_def)
  show "case row of (g, nvs) \<Rightarrow>
          always \<or> 0 < group_size d key g \<longrightarrow> percent (field ''Churn_Rate'' nvs)"
    unfolding p prod.case g' nvs
  proof
    assume "always \<or> 0 < group_size d key g"
    with assms(2) g have "0 < group_size d key g" by auto
    then show "percent (field ''Churn_Rate'' (snd (summary_row d key idc extra g)))"
      by (rule summary_row_percent [OF assms(1)])
  qed
qed

lemma rates_in_range_groups:
  "flagged d \<Longrightarrow>
   rates_in_range True d key (map (summary_row d key idc extra) (group_keys (keys_of d key)))"
  by (rule rates_in_range_rows [where gs = "group_keys (keys_of d key)"])
     (auto simp: group_keys_size)

lemma rates_in_range_sorted:
  "flagged d \<Longrightarrow>
   rates_in_range True d key
     (sort_values_desc c (map (summary_row d key idc extra) (group_keys (keys_of d key))))"
  by (rule rates_in_range_rows [where gs = "group_keys (keys_of d key)"])
     (auto simp: group_keys_size)

lemma rates_in_range_categories:
  "flagged d \<Longrightarrow>
   rates_in_range observed d key
     (map (summary_row d key idc extra) (category_keys observed labels (keys_of d key)))"
  by (rule rates_in_range_rows [where gs = "category_keys observed labels (keys_of d key)"])
     (auto simp: observed_keys_size)

lemma nums_nonneg:
  "list_all nonneg cs \<Longrightarrow> 0 \<le> series_sum cs"
  by (induction cs rule: nums.induct) (simp_all add: series_sum_def)

lemma revenue_filter_le:
  "list_all (\<lambda>r. nonneg (r c)) rs \<Longrightarrow>
   series_sum (map (\<lambda>r. r c) (filter p rs)) \<le> series_sum (map (\<lambda>r. r c) rs)"
proof (induction rs)
  case Nil
  then show ?case by simp
next
  case (Cons r rs)
  then have ih: "series_sum (map (\<lambda>r. r c) (filter p rs)) \<le> series_sum (map (\<lambda>r. r c) rs)"
    and nn: "nonneg (r c)"
    by simp_all
  show ?case
    using ih nn by (cases "r c") (simp_all add: series_sum_def)
qed

lemma percent_le: "(x::rat) \<le> 1 \<Longrightarrow> x * 100 \<le> 100"
  by linarith

lemma primary_kpis_needs:
  "primary_kpis d = Inr k \<Longrightarrow>
   {''Churn_Binary'', ''Total_Revenue'', ''Satisfaction_Rate''} \<subseteq> set (columns d)"
  by (simp add: primary_kpis_def col_def bind_def Let_def split: if_splits sum.splits)

lemma primary_kpis_revenue:
  assumes cs: "{''Churn_Binary'', ''Total_Revenue'', ''Satisfaction_Rate''} \<subseteq> set (columns d)"
    and k: "primary_kpis d = Inr k"
    and nn: "list_all (\<lambda>r. nonneg (r ''Total_Revenue'')) (rows d)"
  shows "revenue_at_risk k \<le> total_revenue k \<and>
         (0 < total_revenue k \<longrightarrow> percent (revenue_risk_percentage k))"
proof -
  let ?risk = "series_sum (map (\<lambda>r. r ''Total_Revenue'')
                  (filter (\<lambda>r. r ''Churn_Binary'' = Num 1) (rows d)))"
  let ?total = "series_sum (map (\<lambda>r. r ''Total_Revenue'') (rows d))"
  have le: "?risk \<le> ?total" by (rule revenue_filter_le [OF nn])
  have "list_all nonneg (map (\<lambda>r. r ''Total_Revenue'')
                  (filter (\<lambda>r. r ''Churn_Binary'' = Num 1) (rows d)))"
    using nn by (simp add: list_all_iff)
  then have ge: "0 \<le> ?risk" by (rule nums_nonneg)
  from cs have run: "primary_kpis d = Inr \<lparr>total_customers = len d,
          churned_customers = trunc (series_sum (map (\<lambda>r. r ''Churn_Binary'') (rows d))),
          churn_rate = fround2 (fscale (fdiv (series_sum (map (\<lambda>r. r ''Churn_Binary'') (rows d)))
                         (of_nat (len d))) 100),
          revenue_at_risk = ?risk,
          total_revenue = ?total,
          revenue_risk_percentage = fround2 (fscale (fdiv ?risk ?total) 100),
          avg_satisfaction = fround2 (series_mean (map (\<lambda>r. r ''Satisfaction_Rate'') (rows d))),
          active_customers = int (len d) - trunc (series_sum (map (\<lambda>r. r ''Churn_Binary'') (rows d)))\<rparr>"
    by (intro primary_kpis_run) simp_all
  have pct: "percent (fround2 (fscale (fdiv ?risk ?total) 100))" if pos: "0 < ?total"
  proof -
    have "0 \<le> ?risk / ?total * 100" using ge pos by simp
    moreover have "?risk / ?total * 100 \<le> 100"
      by (rule percent_le) (use le pos in \<open>simp add: divide_le_eq_1\<close>)
    ultimately have "0 \<le> round2 (?risk / ?total * 100) \<and> round2 (?risk / ?total * 100) \<le> 100"
      by (rule round2_percent)
    then show ?thesis using pos by (simp add: fdiv_def)
  qed
  from k run have "revenue_at_risk k = ?risk" "total_revenue k = ?total"
    "revenue_risk_percentage k = fround2 (fscale (fdiv ?risk ?total) 100)"
    by auto
  with le pct show ?thesis by simp
qed

lemma sum_list_insort_key:
  "sum_list (map f (insort_key k x xs)) = f x + sum_list (map f xs)"
  for f :: "'a \<Rightarrow> rat"
  by (induction xs) simp_all

lemma sum_list_sort_key:
  "sum_list (map f (sort_key k xs)) = sum_list (map f xs)"
  for f :: "'a \<Rightarrow> rat"
  by (induction xs) (simp_all add: sum_list_insort_key)

lemma customers_counted_sorted:
  "customers_counted (sort_values_desc c t) = customers_counted t"
  by (simp add: customers_counted_def sort_values_desc_def sum_list_sort_key)

lemma series_count_group:
  "series_count (map (\<lambda>r. r idc) (filter (\<lambda>r. r key = g) rs)) =
   length (filter (\<lambda>r. r key = g \<and> r idc \<noteq> Null) rs)"
  by (induction rs) (simp_all add: series_count_def)

lemma sum_indicator:
  "distinct gs \<Longrightarrow>
   sum_list (map (\<lambda>g. if a = g \<and> p then (1::nat) else 0) gs) = (if a \<in> set gs \<and> p then 1 else 0)"
  by (induction gs) auto

lemma count_partition:
  assumes "distinct gs"
  shows "sum_list (map (\<lambda>g. length (filter (\<lambda>r. k r = g \<and> P r) rs)) gs) =
         length (filter (\<lambda>r. k r \<in> set gs \<and> P r) rs)"
proof (induction rs)
  case Nil
  then show ?case by simp
next
  case (Cons r rs)
  have "sum_list (map (\<lambda>g. length (filter (\<lambda>r. k r = g \<and> P r) (r # rs))) gs) =
        sum_list (map (\<lambda>g. (if k r = g \<and> P r then 1 else 0) +
                            length (filter (\<lambda>r. k r = g \<and> P r) rs)) gs)"
    by (intro arg_cong [where f = sum_list] map_cong refl) simp
  also have "\<dots> = sum_list (map (\<lambda>g. if k r = g \<and> P r then 1 else 0) gs) +
                    sum_list (map (\<lambda>g. length (filter (\<lambda>r. k r = g \<and> P r) rs)) gs)"
    by (simp add: sum_list_addf)
  also have "\<dots> = (if k r \<in> set gs \<and> P r then 1 else 0) +
                    length (filter (\<lambda>r. k r \<in> set gs \<and> P r) rs)"
    by (simp only: sum_indicator [OF assms] Cons.IH)
  finally show ?case by simp
qed

lemma customers_counted_rows:
  "customers_counted (map (summary_row d key idc extra) gs) =
   of_nat (sum_list (map (\<lambda>g. length (filter (\<lambda>r. r key = g \<and> r idc \<noteq> Null) (rows d))) gs))"
  by (induction gs)
     (simp_all add: customers_counted_def summary_row_def Let_def field_def series_count_group)

lemma counts_rows_groups:
  assumes "distinct gs" "\<forall>r \<in> set (rows d). (r key \<in> set gs) = (r key \<noteq> Null)"
  shows "counts_rows d key idc (map (summary_row d key idc extra) gs)"
proof -
  have "filter (\<lambda>r. r key \<in> set gs \<and> r idc \<noteq> Null) (rows d) =
        filter (\<lambda>r. r key \<noteq> Null \<and> r idc \<noteq> Null) (rows d)"
    using assms(2) by (intro filter_cong refl) simp
  then have total: "customers_counted (map (summary_row d key idc extra) gs) =
        of_nat (length (filter (\<lambda>r. r key \<noteq> Null \<and> r idc \<noteq> Null) (rows d)))"
    by (simp add: customers_counted_rows count_partition [OF assms(1)])
  have "filter (\<lambda>r. r key \<noteq> Null \<and> r idc \<noteq> Null) (rows d) = rows d"
    if "list_all (\<lambda>r. r key \<noteq> Null \<and> r idc \<noteq> Null) (rows d)"
    using that by (simp add: list_all_iff)
  with total show ?thesis
    by (simp add: counts_rows_def len_def)
qed

lemma counts_rows_sorted:
  "counts_rows d key idc (sort_values_desc c t) = counts_rows d key idc t"
  unfolding counts_rows_def customers_counted_sorted by (rule refl)

lemma group_keys_covers:
  "\<forall>r \<in> set (rows d). (r key \<in> set (group_keys (keys_of d key))) = (r key \<noteq> Null)"
  by (auto simp: set_group_keys keys_of_def)

lemma cut_range: "cut bins labels c = Null \<or> (\<exists>l \<in> set labels. cut bins labels c = Str l)"
  by (induction bins labels c rule: cut.induct) auto

lemma distinct_category_keys: "distinct labels \<Longrightarrow> distinct (category_keys observed labels ks)"
  by (simp add: category_keys_def distinct_map inj_on_def)

lemma category_keys_covers:
  assumes "\<forall>r \<in> set (rows d). r key = Null \<or> (\<exists>l \<in> set labels. r key = Str l)"
  shows "\<forall>r \<in> set (rows d). (r key \<in> set (category_keys observed labels (keys_of d key))) = (r key \<noteq> Null)"
  using assms by (auto simp: category_keys_def keys_of_def)

lemma age_group_cells:
  "\<forall>r \<in> set (rows (with_tenure (with_age d))).
     r ''Age_Group'' = Null \<or> (\<exists>l \<in> set age_labels. r ''Age_Group'' = Str l)"
  using cut_range [of age_bins age_labels]
  by (auto simp: with_tenure_def with_age_def rows_assign)

lemma tenure_group_cells:
  "\<forall>r \<in> set (rows (with_tenure (with_age d))).
     r ''Tenure_Group'' = Null \<or> (\<exists>l \<in> set tenure_labels. r ''Tenure_Group'' = Str l)"
  using cut_range [of tenure_bins tenure_labels]
  by (auto simp: with_tenure_def with_age_def rows_assign)

lemma distinct_labels: "distinct age_labels" "distinct tenure_labels"
  by (simp_all add: age_labels_def tenure_labels_def)

section \<open>The effect of the operations on the analyser\<close>

lemma col_assign_other: "x \<noteq> c \<Longrightarrow> col (assign c f d) x = col d x"
  by (simp add: col_def assign_def)

lemma len_assign [simp]: "len (assign c f d) = len d"
  by (simp add: len_def assign_def)

lemma cols_assign_other: "c \<notin> set xs \<Longrightarrow> cols (assign c f d) xs = cols d xs"
  by (induction xs) (auto simp: col_assign_other)

lemma groupby_agg_assign:
  "c \<noteq> key \<Longrightarrow> c \<notin> fst ` set specs \<Longrightarrow>
   groupby_agg grouper (assign c f d) key specs = groupby_agg grouper d key specs"
  by (simp add: groupby_agg_def col_assign_other cols_assign_other)

lemma col_select_assign:
  assumes "x \<noteq> c" "\<And>r v. p (r(c := v)) = p r"
  shows "col (select p (assign c f d)) x = col (select p d) x"
  using assms by (simp add: col_def assign_def filter_map comp_def)

lemma len_select_assign:
  assumes "\<And>r v. p (r(c := v)) = p r"
  shows "len (select p (assign c f d)) = len (select p d)"
  using assms by (simp add: len_def assign_def filter_map comp_def)

lemma primary_kpis_assign:
  "derived c \<Longrightarrow> primary_kpis (assign c f d) = primary_kpis d"
  by (auto simp: derived_def primary_kpis_def col_assign_other col_select_assign)

lemma satisfaction_summary_assign:
  "derived c \<Longrightarrow> satisfaction_summary (assign c f d) = satisfaction_summary d"
  by (auto simp: derived_def satisfaction_summary_def col_assign_other groupby_agg_assign)

lemma state_summary_assign:
  "derived c \<Longrightarrow> state_summary (assign c f d) = state_summary d"
  by (auto simp: derived_def state_summary_def groupby_agg_assign)

lemma geographic_assign:
  "derived c \<Longrightarrow> geographic (assign c f d) = geographic d"
  by (simp add: geographic_def state_summary_assign)

lemma device_summary_assign:
  "derived c \<Longrightarrow> device_summary (assign c f d) = device_summary d"
  by (auto simp: derived_def device_summary_def groupby_agg_assign)

lemma age_summary_with_tenure:
  "age_summary observed (with_tenure d) = age_summary observed d"
  by (simp add: with_tenure_def age_summary_def groupby_agg_assign segment_specs_def)

lemma with_age_idem: "with_age (with_age d) = with_age d"
  by (simp add: with_age_def assign_def comp_def)

lemma with_tenure_idem: "with_tenure (with_tenure d) = with_tenure d"
  by (simp add: with_tenure_def assign_def comp_def)

lemma with_age_with_tenure: "with_age (with_tenure (with_age d)) = with_tenure (with_age d)"
proof -
  have "(r(''Age_Group'' := a, ''Tenure_Group'' := t, ''Age_Group'' := a)) =
        (r(''Age_Group'' := a, ''Tenure_Group'' := t))" for r :: "string \<Rightarrow> cell" and a t
    by (rule ext) simp
  then show ?thesis
    by (simp add: with_age_def with_tenure_def assign_def comp_def)
qed

lemma col_with_age: "x \<noteq> ''Age_Group'' \<Longrightarrow> col (with_age d) x = col d x"
  by (simp add: with_age_def col_assign_other)

lemma col_with_tenure: "x \<noteq> ''Tenure_Group'' \<Longrightarrow> col (with_tenure d) x = col d x"
  by (simp add: with_tenure_def col_assign_other)

lemma segmentation_unfold:
  "segmentation observed d =
     (case col d ''Age'' of Inl e \<Rightarrow> (d, Inl e) | Inr _ \<Rightarrow>
      (case age_summary observed (with_age d) of Inl e \<Rightarrow> (with_age d, Inl e) | Inr age_analysis \<Rightarrow>
      (case col (with_age d) ''Customer_Tenure_in_months'' of Inl e \<Rightarrow> (with_age d, Inl e) | Inr _ \<Rightarrow>
      (case tenure_summary observed (with_tenure (with_age d)) of
         Inl e \<Rightarrow> (with_tenure (with_age d), Inl e) | Inr tenure_analysis \<Rightarrow>
      (case plan_summary (with_tenure (with_age d)) of
         Inl e \<Rightarrow> (with_tenure (with_age d), Inl e)
       | Inr plan_analysis \<Rightarrow>
           (with_tenure (with_age d), Inr (age_analysis, tenure_analysis, plan_analysis)))))))"
  unfolding segmentation_def Let_def with_age_def with_tenure_def by (rule refl)

lemma segmentation_idem:
  "segmentation observed (fst (segmentation observed d)) = segmentation observed d"
proof (cases "col d ''Age''")
  case (Inl e)
  then show ?thesis by (simp add: segmentation_unfold)
next
  case age: (Inr ks)
  then have age1: "col (with_age d) ''Age'' = Inr ks"
    by (simp add: col_with_age)
  show ?thesis
  proof (cases "age_summary observed (with_age d)")
    case (Inl e)
    then have s: "segmentation observed d = (with_age d, Inl e)"
      using age by (simp add: segmentation_unfold)
    show ?thesis
      unfolding s fst_conv
      using age1 Inl by (simp add: segmentation_unfold with_age_idem)
  next
    case sa: (Inr a)
    show ?thesis
    proof (cases "col (with_age d) ''Customer_Tenure_in_months''")
      case (Inl e)
      then have s: "segmentation observed d = (with_age d, Inl e)"
        using age sa by (simp add: segmentation_unfold)
      show ?thesis
        unfolding s fst_conv
        using age1 sa Inl by (simp add: segmentation_unfold with_age_idem)
    next
      case ten: (Inr ts)
      let ?d2 = "with_tenure (with_age d)"
      have age2: "col ?d2 ''Age'' = Inr ks"
        using age1 by (simp add: col_with_tenure)
      have ten2: "col ?d2 ''Customer_Tenure_in_months'' = Inr ts"
        using ten by (simp add: col_with_tenure)
      have sa2: "age_summary observed ?d2 = Inr a"
        using sa by (simp add: age_summary_with_tenure)
      have fp: "fst (segmentation observed d) = ?d2"
        using age sa ten by (simp add: segmentation_unfold split: sum.splits)
      show ?thesis
        unfolding fp
        unfolding segmentation_unfold [of observed ?d2] segmentation_unfold [of observed d]
          with_age_with_tenure with_tenure_idem
        by (simp add: age age2 sa sa2 ten ten2)
    qed
  qed
qed

lemma fst_segmentation_cases:
  "fst (segmentation observed d) = d \<or> fst (segmentation observed d) = with_age d \<or>
   fst (segmentation observed d) = with_tenure (with_age d)"
  by (simp add: segmentation_unfold split: sum.splits)

lemma derived_frame:
  assumes "\<And>c f d. derived c \<Longrightarrow> X (assign c f d) = X d"
  shows "X (fst (segmentation observed d)) = X d"
proof -
  have a: "X (with_age d) = X d" for d
    unfolding with_age_def by (rule assms) (simp add: derived_def)
  have t: "X (with_tenure d) = X d" for d
    unfolding with_tenure_def by (rule assms) (simp add: derived_def)
  from fst_segmentation_cases [of observed d] show ?thesis
    by (auto simp: a t)
qed

lemma stores_append: "stores (xs @ ys) rs = stores ys (stores xs rs)"
  by (simp add: stores_def)

lemma stores_Nil [simp]: "stores [] rs = rs"
  by (simp add: stores_def)

lemma stores_single [simp]: "stores [(k, v)] rs = AList.update k v rs"
  by (simp add: stores_def)

lemma df_say [simp]: "df (say m a) = df a"
  by (simp add: say_def)

lemma df_store [simp]: "df (store k v a) = df a"
  by (simp add: store_def)

lemma results_say [simp]: "analysis_results (say m a) = analysis_results a"
  by (simp add: say_def)

lemma results_store [simp]:
  "analysis_results (store k v a) = AList.update k v (analysis_results a)"
  by (simp add: store_def)

lemma frame_Some: "df a = Some d \<Longrightarrow> frame a = Inr d"
  by (simp add: frame_def)

lemma kpis_step:
  "df (snd (calculate_primary_kpis a)) = df a"
  "df a = Some d \<Longrightarrow> analysis_results (snd (calculate_primary_kpis a)) =
     stores (entry ''primary_kpis'' PrimaryKpis (primary_kpis d)) (analysis_results a)"
  by (auto simp: calculate_primary_kpis_def frame_def entry_def split: sum.splits option.splits)

lemma satisfaction_step:
  "df (snd (satisfaction_churn_analysis a)) = df a"
  "df a = Some d \<Longrightarrow> analysis_results (snd (satisfaction_churn_analysis a)) =
     stores (entry ''satisfaction_analysis'' (\<lambda>(c, t). SatisfactionAnalysis c t)
               (satisfaction_summary d)) (analysis_results a)"
  by (auto simp: satisfaction_churn_analysis_def frame_def entry_def
      split: sum.splits option.splits prod.splits)

lemma geographic_step:
  "df (snd (geographic_analysis a)) = df a"
  "df a = Some d \<Longrightarrow> analysis_results (snd (geographic_analysis a)) =
     stores (entry ''geographic_analysis'' (\<lambda>(g, h, a). GeographicAnalysis g h a)
               (geographic d)) (analysis_results a)"
  by (auto simp: geographic_analysis_def frame_def entry_def
      split: sum.splits option.splits prod.splits)

lemma device_step:
  "df (snd (device_performance_analysis a)) = df a"
  "df a = Some d \<Longrightarrow> analysis_results (snd (device_performance_analysis a)) =
     stores (entry ''device_analysis'' DeviceAnalysis (device_summary d)) (analysis_results a)"
  by (auto simp: device_performance_analysis_def frame_def entry_def
      split: sum.splits option.splits)

lemma segmentation_step:
  "df a = None \<Longrightarrow> df (snd (customer_segmentation_analysis observed a)) = None"
  "df a = Some d \<Longrightarrow>
     df (snd (customer_segmentation_analysis observed a)) = Some (fst (segmentation observed d))"
  "df a = Some d \<Longrightarrow> analysis_results (snd (customer_segmentation_analysis observed a)) =
     stores (entry ''segmentation_analysis'' (\<lambda>(a, t, p). SegmentationAnalysis a t p)
               (snd (segmentation observed d))) (analysis_results a)"
  by (auto simp: customer_segmentation_analysis_def entry_def
      split: sum.splits option.splits prod.splits)

lemma reasons_step:
  "df (snd (churn_reasons_analysis a)) = df a"
  "df a = Some d \<Longrightarrow> analysis_results (snd (churn_reasons_analysis a)) =
     stores (reasons_entry (churn_reasons d)) (analysis_results a)"
  by (auto simp: churn_reasons_analysis_def frame_def reasons_entry_def
      split: sum.splits option.splits)

lemma predictive_step:
  "df (snd (predictive_analytics a)) = df a"
  "df a = Some d \<Longrightarrow> analysis_results (snd (predictive_analytics a)) =
     stores (entry ''predictive_analytics'' PredictiveAnalytics (predictive_metrics d))
       (analysis_results a)"
  by (auto simp: predictive_analytics_def frame_def entry_def split: sum.splits option.splits)

lemma run_None:
  "df a = None \<Longrightarrow> fst (run_complete_analysis observed a) = False \<and>
     df (snd (run_complete_analysis observed a)) = None \<and>
     analysis_results (snd (run_complete_analysis observed a)) = analysis_results a"
  by (simp add: run_complete_analysis_def Let_def)

lemma run_Some:
  assumes "df a = Some d"
  shows "fst (run_complete_analysis observed a) = True"
    and "df (snd (run_complete_analysis observed a)) = Some (fst (segmentation observed d))"
    and "analysis_results (snd (run_complete_analysis observed a)) =
           stores (entries observed d) (analysis_results a)"
proof -
  let ?a0 = "say (Info ''Starting MTN Churn Analysis...'') a"
  let ?a1 = "snd (calculate_primary_kpis ?a0)"
  let ?a2 = "snd (satisfaction_churn_analysis ?a1)"
  let ?a3 = "snd (geographic_analysis ?a2)"
  let ?a4 = "snd (device_performance_analysis ?a3)"
  let ?a5 = "snd (customer_segmentation_analysis observed ?a4)"
  let ?a6 = "snd (churn_reasons_analysis ?a5)"
  let ?a7 = "snd (predictive_analytics ?a6)"
  have run: "run_complete_analysis observed a = (True, say (Done ''Complete analysis finished!'') ?a7)"
    using assms by (simp add: run_complete_analysis_def Let_def)
  have d0: "df ?a0 = Some d" using assms by simp
  have d1: "df ?a1 = Some d" using d0 by (simp only: kpis_step(1))
  have d2: "df ?a2 = Some d" using d1 by (simp only: satisfaction_step(1))
  have d3: "df ?a3 = Some d" using d2 by (simp only: geographic_step(1))
  have d4: "df ?a4 = Some d" using d3 by (simp only: device_step(1))
  have d5: "df ?a5 = Some (fst (segmentation observed d))" by (rule segmentation_step(2) [OF d4])
  have d6: "df ?a6 = Some (fst (segmentation observed d))" using d5 by (simp only: reasons_step(1))
  have d7: "df ?a7 = Some (fst (segmentation observed d))" using d6 by (simp only: predictive_step(1))
  show "fst (run_complete_analysis observed a) = True" by (simp add: run)
  show "df (snd (run_complete_analysis observed a)) = Some (fst (segmentation observed d))"
    by (simp add: run d7)
  have "analysis_results ?a7 = stores (entries observed d) (analysis_results a)"
    unfolding entries_def stores_append
      predictive_step(2) [OF d6] reasons_step(2) [OF d5] segmentation_step(3) [OF d4]
      device_step(2) [OF d3] geographic_step(2) [OF d2] satisfaction_step(2) [OF d1]
      kpis_step(2) [OF d0]
    by simp
  then show "analysis_results (snd (run_complete_analysis observed a)) =
           stores (entries observed d) (analysis_results a)"
    by (simp add: run)
qed

lemma map_of_stores:
  "distinct (map fst kvs) \<Longrightarrow>
   map_of (stores kvs rs) k = (case map_of kvs k of Some v \<Rightarrow> Some v | None \<Rightarrow> map_of rs k)"
proof (induction kvs arbitrary: rs)
  case Nil
  then show ?case by simp
next
  case (Cons kv kvs)
  obtain k' v' where kv: "kv = (k', v')" by (cases kv)
  from Cons.prems kv have d: "distinct (map fst kvs)" and fresh: "k' \<notin> fst ` set kvs"
    by simp_all
  from fresh have none: "map_of kvs k' = None"
    by (simp add: map_of_eq_None_iff)
  have "stores (kv # kvs) rs = stores kvs (AList.update k' v' rs)"
    by (simp add: stores_def kv)
  then show ?case
    using Cons.IH [OF d, of "AList.update k' v' rs"] none
    by (simp add: kv update_conv' split: option.splits)
qed

lemma stores_triv:
  "\<forall>(k, v) \<in> set kvs. map_of rs k = Some v \<Longrightarrow> stores kvs rs = rs"
proof (induction kvs)
  case Nil
  then show ?case by simp
next
  case (Cons kv kvs)
  obtain k v where kv: "kv = (k, v)" by (cases kv)
  with Cons.prems have "map_of rs k = Some v" by simp
  then have "AList.update k v rs = rs" by (rule update_triv)
  then have "stores (kv # kvs) rs = stores kvs rs"
    by (simp add: stores_def kv)
  with Cons show ?case by simp
qed

lemma stores_idem:
  assumes "distinct (map fst kvs)"
  shows "stores kvs (stores kvs rs) = stores kvs rs"
proof (rule stores_triv, clarify)
  fix k v assume "(k, v) \<in> set kvs"
  with assms have "map_of kvs k = Some v" by simp
  then show "map_of (stores kvs rs) k = Some v"
    by (simp add: map_of_stores [OF assms])
qed

lemma fst_entry: "x \<in> fst ` set (entry k w r) \<Longrightarrow> x = k"
  by (auto simp: entry_def split: sum.splits)

lemma fst_reasons_entry: "x \<in> fst ` set (reasons_entry r) \<Longrightarrow> x = ''churn_reasons''"
  by (auto simp: reasons_entry_def split: sum.splits option.splits)

lemma distinct_entry [simp]: "distinct (map fst (entry k w r))"
  by (simp add: entry_def split: sum.splits)

lemma distinct_reasons_entry [simp]: "distinct (map fst (reasons_entry r))"
  by (simp add: reasons_entry_def split: sum.splits option.splits)

lemma distinct_entries: "distinct (map fst (entries observed d))"
  unfolding entries_def
  by (auto dest!: fst_entry fst_reasons_entry)

lemma entries_rerun:
  "entries observed (fst (segmentation observed d)) = entries observed d"
proof -
  have "primary_kpis (fst (segmentation observed d)) = primary_kpis d"
    by (rule derived_frame) (rule primary_kpis_assign)
  moreover have "satisfaction_summary (fst (segmentation observed d)) = satisfaction_summary d"
    by (rule derived_frame) (rule satisfaction_summary_assign)
  moreover have "geographic (fst (segmentation observed d)) = geographic d"
    by (rule derived_frame) (rule geographic_assign)
  moreover have "device_summary (fst (segmentation observed d)) = device_summary d"
    by (rule derived_frame) (rule device_summary_assign)
  ultimately show ?thesis
    by (simp add: entries_def segmentation_idem)
qed

lemma untouched_refl: "untouched d d"
  by (auto simp: untouched_def)

lemma untouched_with_age: "untouched d (with_age d)"
  by (auto simp: untouched_def with_age_def derived_def col_assign_other set_columns_assign)

lemma untouched_with_tenure: "untouched d (with_tenure (with_age d))"
  by (auto simp: untouched_def with_age_def with_tenure_def derived_def col_assign_other
      set_columns_assign)

lemma untouched_segmentation: "untouched d (fst (segmentation observed d))"
  using fst_segmentation_cases [of observed d]
  by (auto simp: untouched_refl untouched_with_age untouched_with_tenure)

lemma derived_columns:
  "col (with_tenure (with_age d)) ''Age_Group'' =
     Inr (map (\<lambda>r. cut age_bins age_labels (r ''Age'')) (rows d))"
  "col (with_tenure (with_age d)) ''Tenure_Group'' =
     Inr (map (\<lambda>r. cut tenure_bins tenure_labels (r ''Customer_Tenure_in_months'')) (rows d))"
  by (simp_all add: col_def with_age_def with_tenure_def assign_def comp_def)

lemma segmentation_success:
  "snd (segmentation observed d) = Inr x \<Longrightarrow>
   fst (segmentation observed d) = with_tenure (with_age d)"
  by (simp add: segmentation_unfold split: sum.splits)

lemma segmentation_returns:
  assumes "df a = Some d"
    and "{''Age'', ''Customer_ID'', ''Churn_Binary'', ''Total_Revenue'', ''Satisfaction_Rate'',
          ''Customer_Tenure_in_months'', ''Subscription_Plan'', ''Unit_Price''} \<subseteq> set (columns d)"
  shows "fst (customer_segmentation_analysis observed a) \<noteq> None"
    and "df (snd (customer_segmentation_analysis observed a)) = Some (with_tenure (with_age d))"
  using assms(1) by (simp_all add: customer_segmentation_analysis_def segmentation_rows [OF assms(2)])

lemma update_fresh: "k \<notin> fst ` set rs \<Longrightarrow> AList.update k v rs = rs @ [(k, v)]"
  by (induction rs) auto

lemma stores_fresh: "distinct (map fst (rs @ kvs)) \<Longrightarrow> stores kvs rs = rs @ kvs"
proof (induction kvs arbitrary: rs)
  case Nil
  then show ?case by simp
next
  case (Cons kv kvs)
  obtain k v where kv: "kv = (k, v)" by (cases kv)
  from Cons.prems kv have fresh: "k \<notin> fst ` set rs" by auto
  from Cons.prems kv have "distinct (map fst ((rs @ [(k, v)]) @ kvs))" by simp
  from Cons.IH [OF this] show ?case
    by (simp add: stores_def kv update_fresh [OF fresh])
qed

lemma fst_entry_Inr: "map fst (entry k w (Inr v)) = [k]"
  by (simp add: entry_def)

lemma geographic_success:
  "{''State'', ''Customer_ID'', ''Churn_Binary'', ''Total_Revenue'', ''Satisfaction_Rate''}
     \<subseteq> set (columns d) \<Longrightarrow> \<exists>x. geographic d = Inr x"
  by (simp add: geographic_def state_summary_rows Let_def)

lemma churn_reasons_no_column:
  "''Churn_Binary'' \<in> set (columns d) \<Longrightarrow> ''Reasons_for_Churn'' \<notin> set (columns d) \<Longrightarrow>
   churn_reasons d = Inr None"
  by (simp add: churn_reasons_def col_present Let_def)

lemma predictive_metrics_success:
  "{''Satisfaction_Rate'', ''Total_Revenue'', ''Customer_Tenure_in_months'', ''Churn_Binary''}
     \<subseteq> set (columns d) \<Longrightarrow> \<exists>p. predictive_metrics d = Inr p"
  by (simp add: predictive_metrics_def col_present Let_def)

lemma printed_predictive:
  "set (printed a) \<subseteq> set (printed (snd (predictive_analytics a)))"
  by (auto simp: predictive_analytics_def say_def store_def split: sum.splits)

lemma printed_reasons:
  "df a = Some d \<Longrightarrow> churn_reasons d = Inr None \<Longrightarrow>
   Warning ''Reasons_for_Churn column not found'' \<in> set (printed (snd (churn_reasons_analysis a)))"
  by (simp add: churn_reasons_analysis_def frame_def say_def)

lemma run_warning:
  assumes "df a = Some d" "churn_reasons (fst (segmentation observed d)) = Inr None"
  shows "Warning ''Reasons_for_Churn column not found''
           \<in> set (printed (snd (run_complete_analysis observed a)))"
proof -
  let ?a0 = "say (Info ''Starting MTN Churn Analysis...'') a"
  let ?a1 = "snd (calculate_primary_kpis ?a0)"
  let ?a2 = "snd (satisfaction_churn_analysis ?a1)"
  let ?a3 = "snd (geographic_analysis ?a2)"
  let ?a4 = "snd (device_performance_analysis ?a3)"
  let ?a5 = "snd (customer_segmentation_analysis observed ?a4)"
  let ?a6 = "snd (churn_reasons_analysis ?a5)"
  let ?a7 = "snd (predictive_analytics ?a6)"
  have run: "run_complete_analysis observed a = (True, say (Done ''Complete analysis finished!'') ?a7)"
    using assms(1) by (simp add: run_complete_analysis_def Let_def)
  have d0: "df ?a0 = Some d" using assms(1) by simp
  have d1: "df ?a1 = Some d" using d0 by (simp only: kpis_step(1))
  have d2: "df ?a2 = Some d" using d1 by (simp only: satisfaction_step(1))
  have d3: "df ?a3 = Some d" using d2 by (simp only: geographic_step(1))
  have d4: "df ?a4 = Some d" using d3 by (simp only: device_step(1))
  have d5: "df ?a5 = Some (fst (segmentation observed d))" by (rule segmentation_step(2) [OF d4])
  have "Warning ''Reasons_for_Churn column not found'' \<in> set (printed ?a6)"
    by (rule printed_reasons [OF d5 assms(2)])
  with printed_predictive [of ?a6]
  have "Warning ''Reasons_for_Churn column not found'' \<in> set (printed ?a7)"
    by blast
  then show ?thesis
    by (simp add: run say_def)
qed

section \<open>The KPI summary\<close>



section \<open>The churn flag\<close>

text \<open>
  C2. The churn flag derived from a status cell is 0 or 1: the statuses "Churned", "Yes"
  and true give 1; "Active", "No", false, any other text and a missing status give 0 (a
  number other than 1 gives 0 too; the number 1 is Python's true). When the table has a
  churn status column, the loaded table's flag column holds these flags, and the rows
  flagged 1 and the rows flagged 0 together are all the rows.
\<close>

theorem churn_flag_partition:
  "churn_binary (Str ''Churned'') = Num 1 \<and> churn_binary (Str ''Yes'') = Num 1 \<and>
   churn_binary (Bool True) = Num 1 \<and>
   churn_binary (Str ''Active'') = Num 0 \<and> churn_binary (Str ''No'') = Num 0 \<and>
   churn_binary (Bool False) = Num 0 \<and>
   churn_binary Null = Num 0 \<and>
   (\<forall>s. s \<notin> {''Churned'', ''Yes''} \<longrightarrow> churn_binary (Str s) = Num 0) \<and>
   (\<forall>x. x \<noteq> 1 \<longrightarrow> churn_binary (Num x) = Num 0) \<and>
   (\<forall>c. churn_binary c = Num 0 \<or> churn_binary c = Num 1) \<and>
   (''Customer_Churn_Status'' \<in> set (columns raw) \<longrightarrow>
      col (prepare_data to_datetime parse raw) ''Churn_Binary'' =
        Inr (map (\<lambda>r. churn_binary (r ''Customer_Churn_Status'')) (rows raw)) \<and>
      len (select (\<lambda>r. r ''Churn_Binary'' = Num 1) (prepare_data to_datetime parse raw)) +
      len (select (\<lambda>r. r ''Churn_Binary'' = Num 0) (prepare_data to_datetime parse raw)) = len raw)"
proof -
  have keys: "churn_binary (Str ''Churned'') = Num 1 \<and> churn_binary (Str ''Yes'') = Num 1 \<and>
   churn_binary (Bool True) = Num 1 \<and>
   churn_binary (Str ''Active'') = Num 0 \<and> churn_binary (Str ''No'') = Num 0 \<and>
   churn_binary (Bool False) = Num 0 \<and> churn_binary Null = Num 0"
    by (simp add: churn_binary_def)
  have others: "\<forall>s. s \<notin> {''Churned'', ''Yes''} \<longrightarrow> churn_binary (Str s) = Num 0"
    by (simp add: churn_binary_def)
  have numbers: "\<forall>x. x \<noteq> 1 \<longrightarrow> churn_binary (Num x) = Num 0"
    by (simp add: churn_binary_def)
  have table: "col (prepare_data to_datetime parse raw) ''Churn_Binary'' =
        Inr (map (\<lambda>r. churn_binary (r ''Customer_Churn_Status'')) (rows raw)) \<and>
      len (select (\<lambda>r. r ''Churn_Binary'' = Num 1) (prepare_data to_datetime parse raw)) +
      len (select (\<lambda>r. r ''Churn_Binary'' = Num 0) (prepare_data to_datetime parse raw)) = len raw"
    if st: "''Customer_Churn_Status'' \<in> set (columns raw)"
  proof -
    let ?d = "prepare_data to_datetime parse raw"
    let ?fs = "map (\<lambda>r. r ''Churn_Binary'') (rows ?d)"
    have c: "col ?d ''Churn_Binary'' = Inr ?fs"
      using st by (simp add: col_present columns_prepare_data)
    have "length (filter (\<lambda>c. c = Num 1) ?fs) + length (filter (\<lambda>c. c = Num 0) ?fs) = length ?fs"
      by (rule binary_partition [OF binary_prepare_data [OF st]])
    then have "len (select (\<lambda>r. r ''Churn_Binary'' = Num 1) ?d) +
               len (select (\<lambda>r. r ''Churn_Binary'' = Num 0) ?d) = len ?d"
      by (simp add: len_def filter_rows_flag)
    with c show ?thesis
      by (simp add: len_prepare_data flags_prepare_data [OF st])
  qed
  from keys others numbers churn_binary_cases table show ?thesis
    by blast
qed

theorem churn_flag_partition_witness:
  "''Customer_Churn_Status'' \<in> set (columns status_example) \<and>
   ''churned'' \<notin> {''Churned'', ''Yes''} \<and> churn_binary (Str ''churned'') = Num 0 \<and>
   (2::rat) \<noteq> 1 \<and> churn_binary (Num 2) = Num 0 \<and>
   col (prepare_data id (\<lambda>s. None) status_example) ''Churn_Binary'' =
     Inr [Num 1, Num 0, Num 0, Num 1, Num 0] \<and>
   len (select (\<lambda>r. r ''Churn_Binary'' = Num 1) (prepare_data id (\<lambda>s. None) status_example)) +
   len (select (\<lambda>r. r ''Churn_Binary'' = Num 0) (prepare_data id (\<lambda>s. None) status_example)) = 5"
proof -
  have st: "''Customer_Churn_Status'' \<in> set (columns status_example)"
    by (simp add: status_example_def)
  have n: "len status_example = 5"
    by (simp add: status_example_def len_def)
  have fs: "map (\<lambda>r. churn_binary (r ''Customer_Churn_Status'')) (rows status_example) =
            [Num 1, Num 0, Num 0, Num 1, Num 0]"
    by (simp add: status_example_def churn_binary_def)
  show ?thesis
    using churn_flag_partition [of status_example id "\<lambda>s. None"] st n fs
    by simp
qed

section \<open>Stored churn rates\<close>




section \<open>Buckets\<close>

text \<open>
  C4. With the bin edges 0/25/35/45/55/100 the ages 20, 30, 40 and 60 get the labels
  18-25, 26-35, 36-45 and 55+. With the edges 0/6/12/24/36/100 a tenure of 0 lies in no
  interval, the intervals being open on the left: it gets no label, while the tenures 1 to
  6 get "0-6 months". The predictive metrics do take a tenure of 0 for a new customer
  (tenure below 6).
\<close>

theorem tenure_zero_unbucketed:
  "map (cut age_bins age_labels) [Num 20, Num 30, Num 40, Num 60] =
     [Str ''18-25'', Str ''26-35'', Str ''36-45'', Str ''55+''] \<and>
   cut tenure_bins tenure_labels (Num 0) = Null \<and>
   cut tenure_bins tenure_labels (Num 1) = Str ''0-6 months'' \<and>
   cut tenure_bins tenure_labels (Num 6) = Str ''0-6 months'' \<and>
   cut tenure_bins tenure_labels (Num 7) = Str ''7-12 months'' \<and>
   cell_lt (Num 0) 6"
  by (simp add: age_bins_def age_labels_def tenure_bins_def tenure_labels_def)

section \<open>Grouping loses no counted row\<close>

text \<open>
  C5, as the code has it. In every grouped analysis the customer counts of the groups add
  up to the number of rows whose key and whose counted cell are both present: the count is
  \<^verbatim>\<open>'Customer_ID': 'count'\<close> (for the satisfaction table the count of the churn flag), which
  skips missing cells, and rows with a missing key belong to no group. So the counts add
  up to the number of rows of the table when neither the key column nor the counted column
  has a missing value.
\<close>

theorem group_counts:
  "(case satisfaction_summary d of
      Inl e \<Rightarrow> \<not> {''Satisfaction_Rate'', ''Churn_Binary'', ''Total_Revenue''} \<subseteq> set (columns d)
    | Inr (crosstab, t) \<Rightarrow> counts_rows d ''Satisfaction_Rate'' ''Churn_Binary'' t) \<and>
   (case state_summary d of
      Inl e \<Rightarrow> \<not> {''State'', ''Customer_ID'', ''Churn_Binary'', ''Total_Revenue'',
                   ''Satisfaction_Rate''} \<subseteq> set (columns d)
    | Inr t \<Rightarrow> counts_rows d ''State'' ''Customer_ID'' t) \<and>
   (case device_summary d of
      Inl e \<Rightarrow> \<not> {''MTN_Device'', ''Customer_ID'', ''Churn_Binary'', ''Total_Revenue'',
                   ''Unit_Price'', ''Satisfaction_Rate''} \<subseteq> set (columns d)
    | Inr t \<Rightarrow> counts_rows d ''MTN_Device'' ''Customer_ID'' t) \<and>
   (case segmentation observed d of
      (d', Inl e) \<Rightarrow> \<not> {''Age'', ''Customer_ID'', ''Churn_Binary'', ''Total_Revenue'',
           ''Satisfaction_Rate'', ''Customer_Tenure_in_months'', ''Subscription_Plan'',
           ''Unit_Price''} \<subseteq> set (columns d)
    | (d', Inr (age, tenure, plan)) \<Rightarrow>
        counts_rows d' ''Age_Group'' ''Customer_ID'' age \<and>
        counts_rows d' ''Tenure_Group'' ''Customer_ID'' tenure \<and>
        counts_rows d' ''Subscription_Plan'' ''Customer_ID'' plan)"
proof -
  have sat: "case satisfaction_summary d of
      Inl e \<Rightarrow> \<not> {''Satisfaction_Rate'', ''Churn_Binary'', ''Total_Revenue''} \<subseteq> set (columns d)
    | Inr (crosstab, t) \<Rightarrow> counts_rows d ''Satisfaction_Rate'' ''Churn_Binary'' t"
  proof (cases "{''Satisfaction_Rate'', ''Churn_Binary'', ''Total_Revenue''} \<subseteq> set (columns d)")
    case True
    show ?thesis
      unfolding satisfaction_summary_rows [OF True] sum.case prod.case
      by (rule counts_rows_groups [OF distinct_group_keys group_keys_covers])
  next
    case False
    with satisfaction_summary_needs [of d] show ?thesis
      by (cases "satisfaction_summary d") auto
  qed
  have geo: "case state_summary d of
      Inl e \<Rightarrow> \<not> {''State'', ''Customer_ID'', ''Churn_Binary'', ''Total_Revenue'',
                   ''Satisfaction_Rate''} \<subseteq> set (columns d)
    | Inr t \<Rightarrow> counts_rows d ''State'' ''Customer_ID'' t"
  proof (cases "{''State'', ''Customer_ID'', ''Churn_Binary'', ''Total_Revenue'',
                   ''Satisfaction_Rate''} \<subseteq> set (columns d)")
    case True
    show ?thesis
      unfolding state_summary_rows [OF True] sum.case counts_rows_sorted
      by (rule counts_rows_groups [OF distinct_group_keys group_keys_covers])
  next
    case False
    with state_summary_needs [of d] show ?thesis
      by (cases "state_summary d") auto
  qed
  have dev: "case device_summary d of
      Inl e \<Rightarrow> \<not> {''MTN_Device'', ''Customer_ID'', ''Churn_Binary'', ''Total_Revenue'',
                   ''Unit_Price'', ''Satisfaction_Rate''} \<subseteq> set (columns d)
    | Inr t \<Rightarrow> counts_rows d ''MTN_Device'' ''Customer_ID'' t"
  proof (cases "{''MTN_Device'', ''Customer_ID'', ''Churn_Binary'', ''Total_Revenue'',
                   ''Unit_Price'', ''Satisfaction_Rate''} \<subseteq> set (columns d)")
    case True
    show ?thesis
      unfolding device_summary_rows [OF True] sum.case counts_rows_sorted
      by (rule counts_rows_groups [OF distinct_group_keys group_keys_covers])
  next
    case False
    with device_summary_needs [of d] show ?thesis
      by (cases "device_summary d") auto
  qed
  have seg: "case segmentation observed d of
      (d', Inl e) \<Rightarrow> \<not> {''Age'', ''Customer_ID'', ''Churn_Binary'', ''Total_Revenue'',
           ''Satisfaction_Rate'', ''Customer_Tenure_in_months'', ''Subscription_Plan'',
           ''Unit_Price''} \<subseteq> set (columns d)
    | (d', Inr (age, tenure, plan)) \<Rightarrow>
        counts_rows d' ''Age_Group'' ''Customer_ID'' age \<and>
        counts_rows d' ''Tenure_Group'' ''Customer_ID'' tenure \<and>
        counts_rows d' ''Subscription_Plan'' ''Customer_ID'' plan"
  proof (cases "{''Age'', ''Customer_ID'', ''Churn_Binary'', ''Total_Revenue'',
                 ''Satisfaction_Rate'', ''Customer_Tenure_in_months'', ''Subscription_Plan'',
                 ''Unit_Price''} \<subseteq> set (columns d)")
    case True
    show ?thesis
      unfolding segmentation_rows [OF True] sum.case prod.case
    proof (intro conjI)
      show "counts_rows (with_tenure (with_age d)) ''Age_Group'' ''Customer_ID''
              (map (summary_row (with_tenure (with_age d)) ''Age_Group'' ''Customer_ID'' segment_extra)
                 (category_keys observed age_labels (keys_of (with_tenure (with_age d)) ''Age_Group'')))"
        by (rule counts_rows_groups
              [OF distinct_category_keys [OF distinct_labels(1)]
                  category_keys_covers [OF age_group_cells]])
      show "counts_rows (with_tenure (with_age d)) ''Tenure_Group'' ''Customer_ID''
              (map (summary_row (with_tenure (with_age d)) ''Tenure_Group'' ''Customer_ID'' segment_extra)
                 (category_keys observed tenure_labels
                    (keys_of (with_tenure (with_age d)) ''Tenure_Group'')))"
        by (rule counts_rows_groups
              [OF distinct_category_keys [OF distinct_labels(2)]
                  category_keys_covers [OF tenure_group_cells]])
      show "counts_rows (with_tenure (with_age d)) ''Subscription_Plan'' ''Customer_ID''
              (map (summary_row (with_tenure (with_age d)) ''Subscription_Plan'' ''Customer_ID''
                      device_extra)
                 (group_keys (keys_of (with_tenure (with_age d)) ''Subscription_Plan'')))"
        by (rule counts_rows_groups [OF distinct_group_keys group_keys_covers])
    qed
  next
    case False
    obtain d' r where s: "segmentation observed d = (d', r)"
      by (cases "segmentation observed d")
    show ?thesis
    proof (cases r)
      case (Inl e)
      with s False show ?thesis by simp
    next
      case (Inr x)
      with s segmentation_needs [of observed d d' x] False show ?thesis by simp
    qed
  qed
  from sat geo dev seg show ?thesis by blast
qed

theorem group_counts_counterexample:
  "list_all (\<lambda>r. r ''State'' \<noteq> Null) (rows (prepare_data id (\<lambda>s. None) id_gap_example)) \<and>
   len (prepare_data id (\<lambda>s. None) id_gap_example) = 2 \<and>
   state_summary (prepare_data id (\<lambda>s. None) id_gap_example) =
     Inr [(Str ''Lagos'',
           [(''Total_Customers'', Fin 1), (''Churned_Customers'', Fin 1),
            (''Churn_Rate'', Fin 50), (''Total_Revenue'', Fin 200),
            (''Avg_Satisfaction'', Fin 3)])] \<and>
   customers_counted
     [(Str ''Lagos'',
       [(''Total_Customers'', Fin 1), (''Churned_Customers'', Fin 1),
        (''Churn_Rate'', Fin 50), (''Total_Revenue'', Fin 200),
        (''Avg_Satisfaction'', Fin 3)])] = 1"
  by code_simp

theorem group_counts_witness:
  "list_all (\<lambda>r. r ''State'' \<noteq> Null \<and> r ''Customer_ID'' \<noteq> Null)
     (rows (prepare_data id (\<lambda>s. None) region_example)) \<and>
   (case state_summary (prepare_data id (\<lambda>s. None) region_example) of
      Inl e \<Rightarrow> False
    | Inr t \<Rightarrow> customers_counted t = 3 \<and>
        counts_rows (prepare_data id (\<lambda>s. None) region_example) ''State'' ''Customer_ID'' t)"
proof -
  let ?d = "prepare_data id (\<lambda>s. None) region_example"
  have full: "list_all (\<lambda>r. r ''State'' \<noteq> Null \<and> r ''Customer_ID'' \<noteq> Null) (rows ?d)"
    by code_simp
  have n: "len ?d = 3"
    by (simp add: len_prepare_data) (simp add: len_def region_example_def)
  have "{''State'', ''Customer_ID'', ''Churn_Binary'', ''Total_Revenue'', ''Satisfaction_Rate''}
          \<subseteq> set (columns ?d)"
    by (simp add: columns_prepare_data region_example_def)
  then have ok: "\<not> isl (state_summary ?d)"
    by (simp add: state_summary_rows)
  from group_counts [of ?d False] full n ok show ?thesis
    by (auto simp: counts_rows_def split: sum.splits)
qed

section \<open>A table without churn reasons\<close>



section \<open>Bounds\<close>




section \<open>Running twice\<close>

text \<open>
  C8. Running the full analysis a second time leaves the results mapping as the first run
  left it, whatever the analyser held before: every analysis recomputes its result from
  the table, the segmentation rewrites its two derived columns with the same values, and
  storing a result under its key replaces the earlier one. The loaded table is the same
  after the second run as after the first.
\<close>

theorem run_twice:
  "analysis_results (snd (run_complete_analysis observed (snd (run_complete_analysis observed a)))) =
     analysis_results (snd (run_complete_analysis observed a)) \<and>
   df (snd (run_complete_analysis observed (snd (run_complete_analysis observed a)))) =
     df (snd (run_complete_analysis observed a))"
proof (cases "df a")
  case None
  then show ?thesis
    using run_None [of a observed] run_None [of "snd (run_complete_analysis observed a)" observed]
    by simp
next
  case (Some d)
  let ?a1 = "snd (run_complete_analysis observed a)"
  let ?d1 = "fst (segmentation observed d)"
  have d1: "df ?a1 = Some ?d1" by (rule run_Some(2) [OF Some])
  have r1: "analysis_results ?a1 = stores (entries observed d) (analysis_results a)"
    by (rule run_Some(3) [OF Some])
  have "analysis_results (snd (run_complete_analysis observed ?a1)) =
        stores (entries observed ?d1) (analysis_results ?a1)"
    by (rule run_Some(3) [OF d1])
  also have "\<dots> = stores (entries observed d) (stores (entries observed d) (analysis_results a))"
    by (simp only: entries_rerun r1)
  also have "\<dots> = stores (entries observed d) (analysis_results a)"
    by (rule stores_idem [OF distinct_entries])
  finally have res: "analysis_results (snd (run_complete_analysis observed ?a1)) =
        analysis_results ?a1"
    by (simp only: r1)
  have "df (snd (run_complete_analysis observed ?a1)) = Some (fst (segmentation observed ?d1))"
    by (rule run_Some(2) [OF d1])
  then have "df (snd (run_complete_analysis observed ?a1)) = df ?a1"
    by (simp add: d1 segmentation_idem)
  with res show ?thesis by simp
qed

section \<open>The new-customer cohort\<close>

text \<open>
  C9. On a table with the satisfaction, revenue and tenure columns in which no row has a
  tenure below 6, the predictive metrics are computed without an error and the
  new-customer churn rate is 0; the operation returns them and stores them.
\<close>

theorem empty_cohort_rate_zero:
  "df a = Some d \<Longrightarrow>
   {''Satisfaction_Rate'', ''Total_Revenue'', ''Customer_Tenure_in_months''} \<subseteq> set (columns d) \<Longrightarrow>
   len (select (\<lambda>r. cell_lt (r ''Customer_Tenure_in_months'') 6) d) = 0 \<Longrightarrow>
   (case predictive_metrics d of
      Inl e \<Rightarrow> False
    | Inr p \<Rightarrow> new_customer_churn_rate p = Fin 0 \<and>
        fst (predictive_analytics a) = Some p \<and>
        map_of (analysis_results (snd (predictive_analytics a))) ''predictive_analytics'' =
          Some (PredictiveAnalytics p))"
proof -
  assume a: "df a = Some d"
    and cs: "{''Satisfaction_Rate'', ''Total_Revenue'', ''Customer_Tenure_in_months''} \<subseteq> set (columns d)"
    and empty: "len (select (\<lambda>r. cell_lt (r ''Customer_Tenure_in_months'') 6) d) = 0"
  from cs empty obtain p where p: "predictive_metrics d = Inr p" "new_customer_churn_rate p = Fin 0"
    using predictive_metrics_empty_cohort [of d] by auto
  from a p show ?thesis
    by (simp add: predictive_analytics_def frame_def store_def say_def update_conv)
qed

theorem empty_cohort_rate_zero_witness:
  "df (init\<lparr>df := Some tenure_example\<rparr>) = Some tenure_example \<and>
   {''Satisfaction_Rate'', ''Total_Revenue'', ''Customer_Tenure_in_months''}
     \<subseteq> set (columns tenure_example) \<and>
   len (select (\<lambda>r. cell_lt (r ''Customer_Tenure_in_months'') 6) tenure_example) = 0 \<and>
   (case fst (predictive_analytics (init\<lparr>df := Some tenure_example\<rparr>)) of
      None \<Rightarrow> False
    | Some p \<Rightarrow> new_customer_churn_rate p = Fin 0)"
proof -
  have a: "df (init\<lparr>df := Some tenure_example\<rparr>) = Some tenure_example"
    by simp
  have cs: "{''Satisfaction_Rate'', ''Total_Revenue'', ''Customer_Tenure_in_months''}
     \<subseteq> set (columns tenure_example)"
    by (simp add: tenure_example_def)
  have empty: "len (select (\<lambda>r. cell_lt (r ''Customer_Tenure_in_months'') 6) tenure_example) = 0"
    by (simp add: tenure_example_def len_def)
  from empty_cohort_rate_zero [OF a cs empty] a cs empty show ?thesis
    by (auto split: sum.splits)
qed

section \<open>What the operations do to the loaded table\<close>

text \<open>
  C10, as the code has it. The KPI, satisfaction, geographic, device, churn-reason and
  predictive operations leave the loaded table as it is. The segmentation writes into the
  loaded table: afterwards the table has the same rows, every column it had, the same
  cells in every column other than Age_Group and Tenure_Group, and no new column other
  than these two; when the operation succeeds, the two columns hold the age and tenure
  buckets of the rows. A column that was already named Age_Group or Tenure_Group is
  overwritten.
\<close>

theorem base_table_frame:
  "df (snd (calculate_primary_kpis a)) = df a \<and>
   df (snd (satisfaction_churn_analysis a)) = df a \<and>
   df (snd (geographic_analysis a)) = df a \<and>
   df (snd (device_performance_analysis a)) = df a \<and>
   df (snd (churn_reasons_analysis a)) = df a \<and>
   df (snd (predictive_analytics a)) = df a \<and>
   (case df a of
      None \<Rightarrow> df (snd (customer_segmentation_analysis observed a)) = None
    | Some d \<Rightarrow>
        (case df (snd (customer_segmentation_analysis observed a)) of
           None \<Rightarrow> False
         | Some d' \<Rightarrow> untouched d d' \<and>
             (fst (customer_segmentation_analysis observed a) \<noteq> None \<longrightarrow>
                col d' ''Age_Group'' =
                  Inr (map (\<lambda>r. cut age_bins age_labels (r ''Age'')) (rows d)) \<and>
                col d' ''Tenure_Group'' =
                  Inr (map (\<lambda>r. cut tenure_bins tenure_labels (r ''Customer_Tenure_in_months''))
                         (rows d)))))"
proof -
  have seg: "case df a of
      None \<Rightarrow> df (snd (customer_segmentation_analysis observed a)) = None
    | Some d \<Rightarrow>
        (case df (snd (customer_segmentation_analysis observed a)) of
           None \<Rightarrow> False
         | Some d' \<Rightarrow> untouched d d' \<and>
             (fst (customer_segmentation_analysis observed a) \<noteq> None \<longrightarrow>
                col d' ''Age_Group'' =
                  Inr (map (\<lambda>r. cut age_bins age_labels (r ''Age'')) (rows d)) \<and>
                col d' ''Tenure_Group'' =
                  Inr (map (\<lambda>r. cut tenure_bins tenure_labels (r ''Customer_Tenure_in_months''))
                         (rows d))))"
  proof (cases "df a")
    case None
    then show ?thesis by (simp add: segmentation_step(1))
  next
    case (Some d)
    have after: "df (snd (customer_segmentation_analysis observed a)) =
                 Some (fst (segmentation observed d))"
      by (rule segmentation_step(2) [OF Some])
    have ok: "fst (segmentation observed d) = with_tenure (with_age d)"
      if "fst (customer_segmentation_analysis observed a) \<noteq> None"
    proof -
      from that Some obtain x where "snd (segmentation observed d) = Inr x"
        by (auto simp: customer_segmentation_analysis_def split: prod.splits sum.splits)
      then show ?thesis by (rule segmentation_success)
    qed
    show ?thesis
      unfolding Some option.case after
      using untouched_segmentation [of d observed] ok
      by (auto simp: derived_columns)
  qed
  with kpis_step(1) satisfaction_step(1) geographic_step(1) device_step(1) reasons_step(1)
    predictive_step(1)
  show ?thesis by blast
qed

theorem base_table_frame_counterexample:
  "col (prepare_data id (\<lambda>s. None) relabel_example) ''Age_Group'' =
     Inr [Str ''adult'', Str ''adult'', Str ''adult''] \<and>
   df (snd (customer_segmentation_analysis False
              (snd (load_data id (\<lambda>s. None) (Inr relabel_example) init)))) \<noteq> None \<and>
   col (the (df (snd (customer_segmentation_analysis False
                        (snd (load_data id (\<lambda>s. None) (Inr relabel_example) init))))))
       ''Age_Group'' =
     Inr [Str ''18-25'', Str ''26-35'', Str ''55+'']"
proof -
  let ?d = "prepare_data id (\<lambda>s. None) relabel_example"
  let ?a = "snd (load_data id (\<lambda>s. None) (Inr relabel_example) init)"
  have before: "col ?d ''Age_Group'' = Inr [Str ''adult'', Str ''adult'', Str ''adult'']"
    by code_simp
  have a: "df ?a = Some ?d"
    by (simp add: load_data_def)
  have cols: "{''Age'', ''Customer_ID'', ''Churn_Binary'', ''Total_Revenue'', ''Satisfaction_Rate'',
          ''Customer_Tenure_in_months'', ''Subscription_Plan'', ''Unit_Price''} \<subseteq> set (columns ?d)"
    by (simp add: columns_prepare_data relabel_example_def region_example_def)
  have ages: "map (\<lambda>r. cut age_bins age_labels (r ''Age'')) (rows ?d) =
              [Str ''18-25'', Str ''26-35'', Str ''55+'']"
    by code_simp
  from segmentation_returns(2) [OF a cols, of False] before ages show ?thesis
    by (simp add: derived_columns)
qed

theorem base_table_frame_witness:
  "df (snd (load_data id (\<lambda>s. None) (Inr region_example) init)) =
     Some (prepare_data id (\<lambda>s. None) region_example) \<and>
   fst (customer_segmentation_analysis False (snd (load_data id (\<lambda>s. None) (Inr region_example) init)))
     \<noteq> None \<and>
   (case df (snd (customer_segmentation_analysis False
                    (snd (load_data id (\<lambda>s. None) (Inr region_example) init)))) of
      None \<Rightarrow> False
    | Some d' \<Rightarrow>
        untouched (prepare_data id (\<lambda>s. None) region_example) d' \<and>
        col d' ''Age_Group'' = Inr [Str ''18-25'', Str ''26-35'', Str ''55+''] \<and>
        col d' ''Tenure_Group'' = Inr [Null, Str ''7-12 months'', Str ''25-36 months''])"
proof -
  let ?d = "prepare_data id (\<lambda>s. None) region_example"
  let ?a = "snd (load_data id (\<lambda>s. None) (Inr region_example) init)"
  have a: "df ?a = Some ?d"
    by (simp add: load_data_def)
  have cols: "{''Age'', ''Customer_ID'', ''Churn_Binary'', ''Total_Revenue'', ''Satisfaction_Rate'',
          ''Customer_Tenure_in_months'', ''Subscription_Plan'', ''Unit_Price''} \<subseteq> set (columns ?d)"
    by (simp add: columns_prepare_data region_example_def)
  have ages: "map (\<lambda>r. cut age_bins age_labels (r ''Age'')) (rows ?d) =
              [Str ''18-25'', Str ''26-35'', Str ''55+'']"
    by code_simp
  have tenures: "map (\<lambda>r. cut tenure_bins tenure_labels (r ''Customer_Tenure_in_months'')) (rows ?d) =
              [Null, Str ''7-12 months'', Str ''25-36 months'']"
    by code_simp
  note ret = segmentation_returns [OF a cols, of False]
  from base_table_frame [of ?a False] a ret ages tenures show ?thesis
    by (simp split: option.splits)
qed

end
